theory Spec2Isabelle
  imports Complex_Main "HOL-Library.AList" "HOL-Library.Sublist"
begin

section \<open>The LLM utility module of pyspur (backend/app/nodes/llm/\_utils.py)\<close>

text \<open>
  A shallow embedding of the request-shaping helpers of \<^verbatim>\<open>_utils.py\<close>.
  Python values that travel through keyword arguments and message dictionaries are
  values of \<open>pyval\<close>; a Python \<^verbatim>\<open>dict\<close> is an association list in insertion
  order (\<open>map_of\<close> reads a key, \<open>AList.update\<close> is \<^verbatim>\<open>d[k] = v\<close>: it overwrites
  in place or appends). A Python \<^verbatim>\<open>str\<close> is a \<open>string\<close> whose characters are the
  code points below 256 (a text with a code point beyond them is not a value of the
  model); a \<^verbatim>\<open>float\<close> is a \<open>real\<close> (the module only stores floats, compares
  them with literals and lets the retry library scale one; NaN and the infinities are
  not values of the model). Every
  exception the code can raise is a value of \<open>exc\<close>, and a function that may raise
  returns \<open>exc + 'a\<close>. Logging calls are left out except where a result depends on them.
\<close>

subsection \<open>Python values, dictionaries, strings, exceptions\<close>

datatype pyval =
    PyNone
  | PyBool bool
  | PyInt int
  | PyFloat real
  | PyStr string
  | PyList "pyval list"
  | PyDict "(string \<times> pyval) list"

type_synonym pydict = "(string \<times> pyval) list"

datatype exc =
    AuthenticationError
  | RateLimitError
  | ValueError
  | JSONDecodeError
  | TypeError
  | KeyError string
  | IndexError
  | AttributeError
  | RuntimeError
  | ValidationError
  | OtherError string
  | RetryError exc

definition dquote :: char where
  "dquote = CHR 0x22"

definition backslash :: char where
  "backslash = CHR 0x5C"

definition newline :: char where
  "newline = CHR 0x0A"

text \<open>\<^verbatim>\<open>s.startswith(p)\<close>\<close>

definition startswith :: "string \<Rightarrow> string \<Rightarrow> bool" where
  "startswith s p = prefix p s"

text \<open>\<^verbatim>\<open>s.endswith(p)\<close>\<close>

definition endswith :: "string \<Rightarrow> string \<Rightarrow> bool" where
  "endswith s p = suffix p s"

text \<open>
  \<^verbatim>\<open>s.replace(old, new)\<close> for a non-empty \<open>old\<close> (every call of the module
  passes a non-empty literal): the occurrences of \<open>old\<close> are replaced from left to
  right, without overlap.
\<close>

function str_replace :: "string \<Rightarrow> string \<Rightarrow> string \<Rightarrow> string" where
  "str_replace old new [] = []"
| "str_replace old new (c # cs) =
     (if old \<noteq> [] \<and> prefix old (c # cs)
      then new @ str_replace old new (drop (length old) (c # cs))
      else c # str_replace old new cs)"
  by pat_completeness auto
termination
  by (relation "measure (\<lambda>(old, new, s). length s)") auto

text \<open>
  \<^verbatim>\<open>s.strip()\<close>: the white space Python's \<^verbatim>\<open>str.isspace\<close> accepts among the
  code points below 256, the next line (U+0085) and the no-break space (U+00A0) included.
\<close>

definition is_space :: "char \<Rightarrow> bool" where
  "is_space c = (c \<in> set [CHR 0x20, CHR 0x09, CHR 0x0A, CHR 0x0B, CHR 0x0C, CHR 0x0D,
                            CHR 0x1C, CHR 0x1D, CHR 0x1E, CHR 0x1F, CHR 0x85, CHR 0xA0])"

definition strip :: "string \<Rightarrow> string" where
  "strip s = rev (dropWhile is_space (rev (dropWhile is_space s)))"

subsection \<open>Providers, constraints and the model registry\<close>

datatype LLMProvider = OPENAI | ANTHROPIC | GEMINI | OLLAMA | AZURE_OPENAI | DEEPSEEK

fun LLMProvider_value :: "LLMProvider \<Rightarrow> string" where
  "LLMProvider_value OPENAI = ''openai''"
| "LLMProvider_value ANTHROPIC = ''anthropic''"
| "LLMProvider_value GEMINI = ''gemini''"
| "LLMProvider_value OLLAMA = ''ollama''"
| "LLMProvider_value AZURE_OPENAI = ''azure''"
| "LLMProvider_value DEEPSEEK = ''deepseek''"

record ModelConstraints =
  max_tokens :: int
  min_temperature :: real
  max_temperature :: real
  supports_JSON_output :: bool

text \<open>
  \<^verbatim>\<open>ModelConstraints(max_tokens=n, max_temperature=t, supports_JSON_output=j)\<close>;
  \<^verbatim>\<open>min_temperature\<close> keeps its default 0.0. The two-argument calls of the source
  leave \<^verbatim>\<open>supports_JSON_output\<close> at its default \<^verbatim>\<open>True\<close>.
\<close>

definition mk_constraints :: "int \<Rightarrow> real \<Rightarrow> bool \<Rightarrow> ModelConstraints" where
  "mk_constraints n t j =
     \<lparr>max_tokens = n, min_temperature = 0.0, max_temperature = t, supports_JSON_output = j\<rparr>"

record LLMModel =
  model_id :: string
  provider :: LLMProvider
  name :: string
  constraints :: ModelConstraints

datatype LLMModels =
    GPT_4O_MINI | GPT_4O | O1_PREVIEW | O1_MINI | O1 | O1_2024_12_17
  | O1_MINI_2024_09_12 | O1_PREVIEW_2024_09_12 | GPT_4_TURBO | CHATGPT_4O_LATEST
  | AZURE_GPT_4 | AZURE_GPT_4_TURBO | AZURE_GPT_35_TURBO
  | CLAUDE_3_5_SONNET_LATEST | CLAUDE_3_5_HAIKU_LATEST | CLAUDE_3_OPUS_LATEST
  | GEMINI_2_0_FLASH_EXP | GEMINI_1_5_PRO | GEMINI_1_5_FLASH
  | GEMINI_1_5_PRO_LATEST | GEMINI_1_5_FLASH_LATEST
  | DEEPSEEK_CHAT | DEEPSEEK_REASONER
  | OLLAMA_PHI4 | OLLAMA_LLAMA3_3_70B | OLLAMA_LLAMA3_3_8B | OLLAMA_LLAMA3_2_8B
  | OLLAMA_LLAMA3_2_1B | OLLAMA_LLAMA3_8B | OLLAMA_GEMMA_2 | OLLAMA_GEMMA_2_2B
  | OLLAMA_MISTRAL | OLLAMA_CODELLAMA | OLLAMA_MIXTRAL | OLLAMA_DEEPSEEK_R1

fun LLMModels_value :: "LLMModels \<Rightarrow> string" where
  "LLMModels_value GPT_4O_MINI = ''openai/gpt-4o-mini''"
| "LLMModels_value GPT_4O = ''openai/gpt-4o''"
| "LLMModels_value O1_PREVIEW = ''openai/o1-preview''"
| "LLMModels_value O1_MINI = ''openai/o1-mini''"
| "LLMModels_value O1 = ''openai/o1''"
| "LLMModels_value O1_2024_12_17 = ''openai/o1-2024-12-17''"
| "LLMModels_value O1_MINI_2024_09_12 = ''openai/o1-mini-2024-09-12''"
| "LLMModels_value O1_PREVIEW_2024_09_12 = ''openai/o1-preview-2024-09-12''"
| "LLMModels_value GPT_4_TURBO = ''openai/gpt-4-turbo''"
| "LLMModels_value CHATGPT_4O_LATEST = ''openai/chatgpt-4o-latest''"
| "LLMModels_value AZURE_GPT_4 = ''azure/gpt-4''"
| "LLMModels_value AZURE_GPT_4_TURBO = ''azure/gpt-4-turbo''"
| "LLMModels_value AZURE_GPT_35_TURBO = ''azure/gpt-35-turbo''"
| "LLMModels_value CLAUDE_3_5_SONNET_LATEST = ''anthropic/claude-3-5-sonnet-latest''"
| "LLMModels_value CLAUDE_3_5_HAIKU_LATEST = ''anthropic/claude-3-5-haiku-latest''"
| "LLMModels_value CLAUDE_3_OPUS_LATEST = ''anthropic/claude-3-opus-latest''"
| "LLMModels_value GEMINI_2_0_FLASH_EXP = ''gemini/gemini-2.0-flash-exp''"
| "LLMModels_value GEMINI_1_5_PRO = ''gemini/gemini-1.5-pro''"
| "LLMModels_value GEMINI_1_5_FLASH = ''gemini/gemini-1.5-flash''"
| "LLMModels_value GEMINI_1_5_PRO_LATEST = ''gemini/gemini-1.5-pro-latest''"
| "LLMModels_value GEMINI_1_5_FLASH_LATEST = ''gemini/gemini-1.5-flash-latest''"
| "LLMModels_value DEEPSEEK_CHAT = ''deepseek/deepseek-chat''"
| "LLMModels_value DEEPSEEK_REASONER = ''deepseek/deepseek-reasoner''"
| "LLMModels_value OLLAMA_PHI4 = ''ollama/phi4''"
| "LLMModels_value OLLAMA_LLAMA3_3_70B = ''ollama/llama3.3:70b''"
| "LLMModels_value OLLAMA_LLAMA3_3_8B = ''ollama/llama3.3:8b''"
| "LLMModels_value OLLAMA_LLAMA3_2_8B = ''ollama/llama3.2:8b''"
| "LLMModels_value OLLAMA_LLAMA3_2_1B = ''ollama/llama3.2:1b''"
| "LLMModels_value OLLAMA_LLAMA3_8B = ''ollama/llama3''"
| "LLMModels_value OLLAMA_GEMMA_2 = ''ollama/gemma2''"
| "LLMModels_value OLLAMA_GEMMA_2_2B = ''ollama/gemma2:2b''"
| "LLMModels_value OLLAMA_MISTRAL = ''ollama/mistral''"
| "LLMModels_value OLLAMA_CODELLAMA = ''ollama/codellama''"
| "LLMModels_value OLLAMA_MIXTRAL = ''ollama/mixtral-8x7b-instruct-v0.1''"
| "LLMModels_value OLLAMA_DEEPSEEK_R1 = ''ollama/deepseek-r1''"

text \<open>The members of the enum, in declaration order.\<close>

definition LLMModels_members :: "LLMModels list" where
  "LLMModels_members =
     [GPT_4O_MINI, GPT_4O, O1_PREVIEW, O1_MINI, O1, O1_2024_12_17,
      O1_MINI_2024_09_12, O1_PREVIEW_2024_09_12, GPT_4_TURBO, CHATGPT_4O_LATEST,
      AZURE_GPT_4, AZURE_GPT_4_TURBO, AZURE_GPT_35_TURBO,
      CLAUDE_3_5_SONNET_LATEST, CLAUDE_3_5_HAIKU_LATEST, CLAUDE_3_OPUS_LATEST,
      GEMINI_2_0_FLASH_EXP, GEMINI_1_5_PRO, GEMINI_1_5_FLASH,
      GEMINI_1_5_PRO_LATEST, GEMINI_1_5_FLASH_LATEST,
      DEEPSEEK_CHAT, DEEPSEEK_REASONER,
      OLLAMA_PHI4, OLLAMA_LLAMA3_3_70B, OLLAMA_LLAMA3_3_8B, OLLAMA_LLAMA3_2_8B,
      OLLAMA_LLAMA3_2_1B, OLLAMA_LLAMA3_8B, OLLAMA_GEMMA_2, OLLAMA_GEMMA_2_2B,
      OLLAMA_MISTRAL, OLLAMA_CODELLAMA, OLLAMA_MIXTRAL, OLLAMA_DEEPSEEK_R1]"

text \<open>One entry of the registry literal: the key is the member's value.\<close>

definition entry ::
  "LLMModels \<Rightarrow> LLMProvider \<Rightarrow> string \<Rightarrow> ModelConstraints \<Rightarrow> string \<times> LLMModel" where
  "entry m p n c =
     (LLMModels_value m,
      \<lparr>model_id = LLMModels_value m, provider = p, name = n, constraints = c\<rparr>)"

text \<open>The dictionary literal of \<^verbatim>\<open>get_model_info\<close>, entry by entry in source order.\<close>

definition model_registry :: "(string \<times> LLMModel) list" where
  "model_registry =
     [entry GPT_4O_MINI OPENAI ''GPT-4O Mini'' (mk_constraints 16384 2.0 True),
      entry GPT_4O OPENAI ''GPT-4O'' (mk_constraints 16384 2.0 True),
      entry O1_PREVIEW OPENAI ''O1 Preview'' (mk_constraints 32768 2.0 True),
      entry O1_MINI OPENAI ''O1 Mini'' (mk_constraints 65536 2.0 True),
      entry O1 OPENAI ''O1'' (mk_constraints 100000 2.0 True),
      entry O1_2024_12_17 OPENAI ''O1 (2024-12-17)'' (mk_constraints 100000 2.0 True),
      entry O1_MINI_2024_09_12 OPENAI ''O1 Mini (2024-09-12)'' (mk_constraints 65536 2.0 True),
      entry O1_PREVIEW_2024_09_12 OPENAI ''O1 Preview (2024-09-12)''
        (mk_constraints 32768 2.0 True),
      entry GPT_4_TURBO OPENAI ''GPT-4 Turbo'' (mk_constraints 4096 2.0 True),
      entry CHATGPT_4O_LATEST OPENAI ''ChatGPT-4 Optimized Latest''
        (mk_constraints 4096 2.0 True),
      entry AZURE_GPT_4 AZURE_OPENAI ''Azure GPT-4'' (mk_constraints 4096 2.0 True),
      entry AZURE_GPT_4_TURBO AZURE_OPENAI ''Azure GPT-4 Turbo'' (mk_constraints 4096 2.0 True),
      entry AZURE_GPT_35_TURBO AZURE_OPENAI ''Azure GPT-3.5 Turbo''
        (mk_constraints 4096 2.0 True),
      entry CLAUDE_3_5_SONNET_LATEST ANTHROPIC ''Claude 3.5 Sonnet Latest''
        (mk_constraints 8192 1.0 False),
      entry CLAUDE_3_5_HAIKU_LATEST ANTHROPIC ''Claude 3.5 Haiku Latest''
        (mk_constraints 8192 1.0 False),
      entry CLAUDE_3_OPUS_LATEST ANTHROPIC ''Claude 3 Opus Latest''
        (mk_constraints 4096 1.0 False),
      entry GEMINI_1_5_PRO GEMINI ''Gemini 1.5 Pro'' (mk_constraints 8192 1.0 True),
      entry GEMINI_1_5_FLASH GEMINI ''Gemini 1.5 Flash'' (mk_constraints 8192 1.0 True),
      entry GEMINI_1_5_PRO_LATEST GEMINI ''Gemini 1.5 Pro Latest''
        (mk_constraints 8192 1.0 True),
      entry GEMINI_1_5_FLASH_LATEST GEMINI ''Gemini 1.5 Flash Latest''
        (mk_constraints 8192 1.0 True),
      entry DEEPSEEK_CHAT DEEPSEEK ''Deepseek Chat'' (mk_constraints 8192 2.0 False),
      entry DEEPSEEK_REASONER DEEPSEEK ''Deepseek Reasoner'' (mk_constraints 8192 2.0 False),
      entry OLLAMA_PHI4 OLLAMA ''Phi 4'' (mk_constraints 4096 2.0 True),
      entry OLLAMA_LLAMA3_3_70B OLLAMA ''Llama 3.3 (70B)'' (mk_constraints 4096 2.0 True),
      entry OLLAMA_LLAMA3_3_8B OLLAMA ''Llama 3.3 (8B)'' (mk_constraints 4096 2.0 True),
      entry OLLAMA_LLAMA3_2_8B OLLAMA ''Llama 3.2 (8B)'' (mk_constraints 4096 2.0 True),
      entry OLLAMA_LLAMA3_2_1B OLLAMA ''Llama 3.2 (1B)'' (mk_constraints 4096 2.0 True),
      entry OLLAMA_LLAMA3_8B OLLAMA ''Llama 3 (8B)'' (mk_constraints 4096 2.0 True),
      entry OLLAMA_GEMMA_2 OLLAMA ''Gemma 2'' (mk_constraints 4096 2.0 True),
      entry OLLAMA_GEMMA_2_2B OLLAMA ''Gemma 2 (2B)'' (mk_constraints 4096 2.0 True),
      entry OLLAMA_MISTRAL OLLAMA ''Mistral'' (mk_constraints 4096 2.0 True),
      entry OLLAMA_CODELLAMA OLLAMA ''CodeLlama'' (mk_constraints 4096 2.0 True),
      entry OLLAMA_MIXTRAL OLLAMA ''Mixtral 8x7B Instruct'' (mk_constraints 4096 2.0 True),
      entry OLLAMA_DEEPSEEK_R1 OLLAMA ''Deepseek R1'' (mk_constraints 4096 2.0 True)]"

text \<open>\<^verbatim>\<open>model_registry.get(model_id)\<close>: \<open>None\<close> is Python's \<^verbatim>\<open>None\<close>.\<close>

definition get_model_info :: "string \<Rightarrow> LLMModel option" where
  "get_model_info mid = map_of model_registry mid"

text \<open>The part of a model id before its first \<^verbatim>\<open>/\<close>.\<close>

definition provider_prefix :: "string \<Rightarrow> string" where
  "provider_prefix s = takeWhile (\<lambda>c. c \<noteq> CHR ''/'') s"

subsection \<open>ModelInfo: a validated record\<close>

text \<open>
  \<^verbatim>\<open>ModelInfo\<close> is a pydantic \<^verbatim>\<open>BaseModel\<close>; the validation itself is the
  library's. A keyword argument of the constructor is left out (\<open>None\<close>) or passed
  (\<open>Some v\<close>, and \<open>v\<close> may be \<^verbatim>\<open>None\<close>, a number, a string or anything else).
  How the library converts a passed value to the type of a number field differs between
  its versions and modes (\<^verbatim>\<open>100.5\<close> for an \<^verbatim>\<open>int\<close> field is refused by one
  major version and truncated by the other), so the two conversions are parameters:
  \<open>int_of py v\<close> and \<open>float_of py v\<close> are the number \<open>v\<close> is validated to, and
  \<open>None\<close> when \<open>v\<close> is refused as a value of the type.
\<close>

record pydantic =
  int_of :: "pyval \<Rightarrow> int option"
  float_of :: "pyval \<Rightarrow> real option"

record ModelInfo =
  model :: LLMModels
  max_tokens :: "int option"
  temperature :: "real option"
  top_p :: "real option"

text \<open>\<^verbatim>\<open>LLMModels(s)\<close>: the member whose value is \<open>s\<close>.\<close>

definition LLMModels_of_value :: "string \<Rightarrow> LLMModels option" where
  "LLMModels_of_value s = find (\<lambda>m. LLMModels_value m = s) LLMModels_members"

text \<open>
  \<^verbatim>\<open>model: LLMModels = Field(LLMModels.GPT_4O)\<close>: the default when left out; a
  passed value must be the value of a member (the members are strings), so
  \<^verbatim>\<open>None\<close> and every value that is not a string are refused.
\<close>

definition validate_model :: "pyval option \<Rightarrow> LLMModels option" where
  "validate_model a =
     (case a of
        None \<Rightarrow> Some GPT_4O
      | Some (PyStr s) \<Rightarrow> LLMModels_of_value s
      | Some _ \<Rightarrow> None)"

text \<open>
  The outer \<open>None\<close> of the three numeric validators is a validation failure.
  \<^verbatim>\<open>max_tokens: Optional[int] = Field(..., ge=1, le=65536)\<close>: required
  (\<^verbatim>\<open>...\<close>), \<^verbatim>\<open>None\<close> is accepted, any other value is converted and the
  number is checked against the bounds.
\<close>

definition validate_max_tokens :: "pydantic \<Rightarrow> pyval option \<Rightarrow> int option option" where
  "validate_max_tokens py a =
     (case a of
        None \<Rightarrow> None
      | Some PyNone \<Rightarrow> Some None
      | Some v \<Rightarrow>
          (case int_of py v of
             None \<Rightarrow> None
           | Some n \<Rightarrow> if 1 \<le> n \<and> n \<le> 65536 then Some (Some n) else None))"

text \<open>
  \<^verbatim>\<open>temperature\<close> and \<^verbatim>\<open>top_p\<close>: \<^verbatim>\<open>Optional[float]\<close> with a default
  and \<^verbatim>\<open>ge=0.0, le=1.0\<close>; the default is taken as it is.
\<close>

definition validate_unit_float :: "pydantic \<Rightarrow> real \<Rightarrow> pyval option \<Rightarrow> real option option" where
  "validate_unit_float py dflt a =
     (case a of
        None \<Rightarrow> Some (Some dflt)
      | Some PyNone \<Rightarrow> Some None
      | Some v \<Rightarrow>
          (case float_of py v of
             None \<Rightarrow> None
           | Some x \<Rightarrow> if 0.0 \<le> x \<and> x \<le> 1.0 then Some (Some x) else None))"

text \<open>
  \<^verbatim>\<open>ModelInfo(model=m, max_tokens=mt, temperature=t, top_p=p)\<close>; a failed
  validation raises \<^verbatim>\<open>ValidationError\<close>.
\<close>

definition ModelInfo_init ::
  "pydantic \<Rightarrow> pyval option \<Rightarrow> pyval option \<Rightarrow> pyval option \<Rightarrow> pyval option
     \<Rightarrow> exc + ModelInfo" where
  "ModelInfo_init py m mt t p =
     (case validate_model m of
        None \<Rightarrow> Inl ValidationError
      | Some m' \<Rightarrow>
          (case validate_max_tokens py mt of
             None \<Rightarrow> Inl ValidationError
           | Some mt' \<Rightarrow>
               (case validate_unit_float py 0.7 t of
                  None \<Rightarrow> Inl ValidationError
                | Some t' \<Rightarrow>
                    (case validate_unit_float py 1.0 p of
                       None \<Rightarrow> Inl ValidationError
                     | Some p' \<Rightarrow>
                         Inr \<lparr>model = m', max_tokens = mt', temperature = t', top_p = p'\<rparr>))))"

text \<open>
  A conversion that takes an \<^verbatim>\<open>int\<close> for an \<^verbatim>\<open>int\<close> field, an \<^verbatim>\<open>int\<close> or
  a \<^verbatim>\<open>float\<close> for a \<^verbatim>\<open>float\<close> field, and refuses every other value.
\<close>

definition numbers_only :: pydantic where
  "numbers_only =
     \<lparr>int_of = (\<lambda>v. case v of PyInt n \<Rightarrow> Some n | _ \<Rightarrow> None),
      float_of = (\<lambda>v. case v of PyInt n \<Rightarrow> Some (of_int n) | PyFloat x \<Rightarrow> Some x | _ \<Rightarrow> None)\<rparr>"

subsection \<open>create\_messages\<close>

type_synonym message = "(string \<times> string) list"

text \<open>
  The loop over \<^verbatim>\<open>few_shot_examples\<close>: \<^verbatim>\<open>example["input"]\<close> and
  \<^verbatim>\<open>example["output"]\<close> raise \<^verbatim>\<open>KeyError\<close> on a dictionary without the key.
\<close>

fun append_examples :: "message list \<Rightarrow> message list \<Rightarrow> exc + message list" where
  "append_examples messages [] = Inr messages"
| "append_examples messages (example # rest) =
     (case map_of example ''input'' of
        None \<Rightarrow> Inl (KeyError ''input'')
      | Some i \<Rightarrow>
          (case map_of example ''output'' of
             None \<Rightarrow> Inl (KeyError ''output'')
           | Some out \<Rightarrow>
               append_examples
                 (messages @ [[(''role'', ''user''), (''content'', i)],
                              [(''role'', ''assistant''), (''content'', out)]])
                 rest))"

text \<open>
  \<^verbatim>\<open>if few_shot_examples:\<close> and \<^verbatim>\<open>if history:\<close> are false for \<^verbatim>\<open>None\<close> and
  for the empty list.
\<close>

definition create_messages ::
  "string \<Rightarrow> string \<Rightarrow> message list option \<Rightarrow> message list option \<Rightarrow> exc + message list" where
  "create_messages system_message user_message few_shot_examples history =
     (let messages = [[(''role'', ''system''), (''content'', system_message)]] in
      case (case few_shot_examples of
              Some (e # es) \<Rightarrow> append_examples messages (e # es)
            | _ \<Rightarrow> Inr messages) of
        Inl err \<Rightarrow> Inl err
      | Inr messages \<Rightarrow>
          let messages = (case history of Some (h # hs) \<Rightarrow> messages @ (h # hs) | _ \<Rightarrow> messages)
          in Inr (messages @ [[(''role'', ''user''), (''content'', user_message)]]))"

text \<open>The user/assistant pair a few-shot example stands for, and an optional list's entries.\<close>

definition example_pair :: "message \<Rightarrow> message list" where
  "example_pair ex = [[(''role'', ''user''), (''content'', the (map_of ex ''input''))],
                      [(''role'', ''assistant''), (''content'', the (map_of ex ''output''))]]"

definition opt_list :: "'a list option \<Rightarrow> 'a list" where
  "opt_list xs = (case xs of None \<Rightarrow> [] | Some l \<Rightarrow> l)"

subsection \<open>convert\_output\_schema\_to\_json\_schema\<close>

text \<open>
  One round of the loop over \<^verbatim>\<open>output_schema.items()\<close>. The two parts of
  \<^verbatim>\<open>json_schema\<close> the loop writes to are carried as a pair: the dictionary under
  \<^verbatim>\<open>"properties"\<close> and the list under \<^verbatim>\<open>"required"\<close>.
\<close>

definition schema_step :: "string \<times> pyval \<Rightarrow> pydict \<times> pyval list \<Rightarrow> pydict \<times> pyval list" where
  "schema_step item acc =
     (case item of (field, field_type) \<Rightarrow>
      case acc of (properties, required) \<Rightarrow>
       ((if field_type = PyStr ''str'' \<or> field_type = PyStr ''string''
         then AList.update field (PyDict [(''type'', PyStr ''string'')]) properties
         else if field_type = PyStr ''int'' \<or> field_type = PyStr ''integer''
         then AList.update field (PyDict [(''type'', PyStr ''integer'')]) properties
         else if field_type = PyStr ''float'' \<or> field_type = PyStr ''number''
         then AList.update field (PyDict [(''type'', PyStr ''number'')]) properties
         else if field_type = PyStr ''bool'' \<or> field_type = PyStr ''boolean''
         then AList.update field (PyDict [(''type'', PyStr ''boolean'')]) properties
         else properties),
        required @ [PyStr field]))"

definition convert_output_schema_to_json_schema :: "pydict \<Rightarrow> pyval" where
  "convert_output_schema_to_json_schema output_schema =
     (case fold schema_step output_schema ([], []) of (properties, required) \<Rightarrow>
        PyDict [(''type'', PyStr ''object''),
                (''properties'', PyDict properties),
                (''required'', PyList required),
                (''additionalProperties'', PyBool False)])"

text \<open>
  The type names the claim about \<^verbatim>\<open>convert_output_schema_to_json_schema\<close> calls
  recognized, with the JSON type each stands for.
\<close>

definition recognized_type :: "pyval \<Rightarrow> string option" where
  "recognized_type t =
     (if t \<in> {PyStr ''str'', PyStr ''string''} then Some ''string''
      else if t \<in> {PyStr ''int'', PyStr ''integer''} then Some ''integer''
      else if t \<in> {PyStr ''float'', PyStr ''number''} then Some ''number''
      else if t \<in> {PyStr ''bool'', PyStr ''boolean''} then Some ''boolean''
      else None)"

subsection \<open>The outside world\<close>

text \<open>
  What the module calls and does not define is a field of \<open>world\<close>: the environment
  variables, the provider clients, the litellm capability tables, the JSON codec and the
  file helpers. A call that can raise returns \<open>exc + 'a\<close>. The two network calls take
  the number of the attempt that makes them (1, 2, 3), so that a provider may fail on
  one attempt and answer on the next. The answer of \<^verbatim>\<open>acompletion\<close> is the list of
  \<^verbatim>\<open>response.choices[i].message.content\<close>.
\<close>

record ollama_request =
  host :: "string option"
  ollama_model :: string
  ollama_messages :: "pydict list"
  format :: "string option"
  options :: pyval

text \<open>
  What \<^verbatim>\<open>docx2python(file_path)\<close> yields: \<^verbatim>\<open>properties\<close> is a dictionary from
  property names to a string or \<^verbatim>\<open>None\<close>, and \<^verbatim>\<open>text\<close> is one \<^verbatim>\<open>str\<close>, all
  the text of the document.
\<close>

record docx_content =
  docx_properties :: "(string \<times> string option) list"
  docx_text :: string

record world =
  getenv :: "string \<Rightarrow> string option"
  setup_azure_configuration :: "pydict \<Rightarrow> exc + pydict"
  acompletion :: "nat \<Rightarrow> pydict \<Rightarrow> exc + string list"
  ollama_chat :: "nat \<Rightarrow> ollama_request \<Rightarrow> exc + string"
  OllamaOptions_to_dict :: "real \<Rightarrow> int \<Rightarrow> pyval"
  json_loads :: "string \<Rightarrow> pyval option"
  json_dumps :: "pyval \<Rightarrow> string"
  get_supported_openai_params :: "string \<Rightarrow> string list"
  supports_response_schema :: "string \<Rightarrow> bool"
  is_external_url :: "string \<Rightarrow> bool"
  resolve_file_path :: "string \<Rightarrow> exc + string"
  docx2python :: "string \<Rightarrow> exc + docx_content"
  b64encode :: "string \<Rightarrow> string"
  encode_file_to_base64_data_url :: "string \<Rightarrow> exc + string"

subsection \<open>async\_retry\<close>

text \<open>
  \<^verbatim>\<open>async_retry\<close> wraps a coroutine in tenacity's \<^verbatim>\<open>AsyncRetrying\<close>:
  \<^verbatim>\<open>async for attempt in r: with attempt: return await f(*args, **kwargs)\<close>.
  The iteration is the library's; as the library documents it:
  \<^item> an attempt that returns ends the call with its value;
  \<^item> after an attempt that raised, the \<^verbatim>\<open>retry\<close> callable is applied to the
    \<^emph>\<open>retry call state\<close> (an object holding the attempt number and the outcome, not
    the exception); when it answers false the exception of the attempt is raised again;
  \<^item> otherwise the \<^verbatim>\<open>stop\<close> callable is asked; \<^verbatim>\<open>stop_after_attempt(n)\<close> is
    true from attempt \<open>n\<close> on, and then \<^verbatim>\<open>RetryError\<close> is raised from the last
    exception (\<^verbatim>\<open>reraise\<close> is not set);
  \<^item> otherwise the call sleeps for the time the \<^verbatim>\<open>wait\<close> callable gives for the
    retry call state and makes the next attempt.
\<close>

record 'a RetryCallState =
  attempt_number :: nat
  outcome :: "exc + 'a"

text \<open>The objects a \<^verbatim>\<open>retry\<close> callable may be applied to.\<close>

datatype 'a pyobj = ExceptionObj exc | RetryCallStateObj "'a RetryCallState"

text \<open>\<^verbatim>\<open>isinstance(x, ValueError)\<close> for the exceptions of \<open>exc\<close>.\<close>

definition is_ValueError :: "exc \<Rightarrow> bool" where
  "is_ValueError x = (x = ValueError \<or> x = JSONDecodeError \<or> x = ValidationError)"

text \<open>
  The \<^verbatim>\<open>retry\<close> argument of \<^verbatim>\<open>completion_with_backoff\<close>:
  \<^verbatim>\<open>lambda e: not isinstance(e, (AuthenticationError, ValueError, RateLimitError))\<close>.
\<close>

definition completion_retry :: "'a pyobj \<Rightarrow> bool" where
  "completion_retry e =
     (\<not> (case e of
            ExceptionObj x \<Rightarrow> x = AuthenticationError \<or> is_ValueError x \<or> x = RateLimitError
          | RetryCallStateObj st \<Rightarrow> False))"

text \<open>
  \<^verbatim>\<open>ollama_with_backoff\<close> passes no \<^verbatim>\<open>retry\<close>: the library's default
  \<^verbatim>\<open>retry_if_exception_type()\<close> retries after every exception.
\<close>

definition retry_if_exception_type :: "'a pyobj \<Rightarrow> bool" where
  "retry_if_exception_type e =
     (case e of ExceptionObj x \<Rightarrow> False | RetryCallStateObj st \<Rightarrow> isl (outcome st))"

record 'a retried =
  attempts :: nat
  result :: "exc + 'a"

text \<open>
  \<open>AsyncRetrying n retry f k\<close>: the wrapped call from attempt \<open>k\<close> on, with
  \<^verbatim>\<open>stop=stop_after_attempt(n)\<close>; \<open>f k\<close> is the outcome of attempt \<open>k\<close>.
\<close>

function AsyncRetrying ::
  "nat \<Rightarrow> ('a pyobj \<Rightarrow> bool) \<Rightarrow> (nat \<Rightarrow> exc + 'a) \<Rightarrow> nat \<Rightarrow> 'a retried" where
  "AsyncRetrying n retry f k =
     (case f k of
        Inr v \<Rightarrow> \<lparr>attempts = k, result = Inr v\<rparr>
      | Inl e \<Rightarrow>
          if \<not> retry (RetryCallStateObj \<lparr>attempt_number = k, outcome = Inl e\<rparr>)
          then \<lparr>attempts = k, result = Inl e\<rparr>
          else if k \<ge> n then \<lparr>attempts = k, result = Inl (RetryError e)\<rparr>
          else AsyncRetrying n retry f (Suc k))"
  by pat_completeness auto
termination
  by (relation "measure (\<lambda>(n, retry, f, k). n - k)") auto

declare AsyncRetrying.simps [simp del]

text \<open>
  The \<^verbatim>\<open>wait\<close> strategies, as tenacity 8.2.3 defines them. After attempt \<open>k\<close>,
  \<^verbatim>\<open>wait_exponential(multiplier, max, exp_base, min)\<close> is
  \<^verbatim>\<open>max(max(0, min), min(multiplier * exp_base ** (k - 1), max))\<close>. Its subclass
  \<^verbatim>\<open>wait_random_exponential\<close> keeps the defaults \<^verbatim>\<open>multiplier=1\<close> and
  \<^verbatim>\<open>exp_base=2\<close>, takes that value as \<^verbatim>\<open>high\<close> and returns
  \<^verbatim>\<open>random.uniform(0, high)\<close>. Python's \<^verbatim>\<open>random.uniform(a, b)\<close> is
  \<^verbatim>\<open>a + (b - a) * random()\<close>, where \<^verbatim>\<open>random()\<close> is a draw from 0 up to 1; the
  draw is the last argument here.
\<close>

definition wait_exponential :: "real \<Rightarrow> real \<Rightarrow> real \<Rightarrow> real \<Rightarrow> nat \<Rightarrow> real" where
  "wait_exponential multiplier mx exp_base mn k =
     max (max 0 mn) (min (multiplier * exp_base ^ (k - 1)) mx)"

definition uniform :: "real \<Rightarrow> real \<Rightarrow> real \<Rightarrow> real" where
  "uniform a b draw = a + (b - a) * draw"




subsection \<open>completion\_with\_backoff and ollama\_with\_backoff\<close>

text \<open>The calls one attempt of \<^verbatim>\<open>completion_with_backoff\<close> makes, with their arguments.\<close>

datatype call = Call_setup_azure_configuration pydict | Call_acompletion pydict

text \<open>Truth of an \<^verbatim>\<open>Optional[str]\<close>: \<^verbatim>\<open>None\<close> and the empty string are false.\<close>

definition truthy_str :: "string option \<Rightarrow> bool" where
  "truthy_str v = (case v of None \<Rightarrow> False | Some s \<Rightarrow> s \<noteq> [])"

text \<open>
  \<^verbatim>\<open>model = kwargs.get("model", "")\<close> (\<open>mdl\<close> below), as the receiver of \<^verbatim>\<open>startswith\<close>: a
  value that is not a string has no such attribute.
\<close>

definition kwargs_model :: "pydict \<Rightarrow> exc + string" where
  "kwargs_model kwargs =
     (case map_of kwargs ''model'' of
        None \<Rightarrow> Inr []
      | Some (PyStr m) \<Rightarrow> Inr m
      | Some _ \<Rightarrow> Inl AttributeError)"

text \<open>\<^verbatim>\<open>response.choices[0].message.content\<close> of an awaited \<^verbatim>\<open>acompletion\<close>.\<close>

definition first_choice :: "exc + string list \<Rightarrow> exc + string" where
  "first_choice r =
     (case r of
        Inl e \<Rightarrow> Inl e
      | Inr [] \<Rightarrow> Inl IndexError
      | Inr (c # cs) \<Rightarrow> Inr c)"

text \<open>
  The body of \<^verbatim>\<open>completion_with_backoff\<close>, run as attempt \<open>k\<close>: the calls it makes
  and its outcome. Both \<^verbatim>\<open>except\<close> clauses log and raise the exception they caught.
  The log line of the Azure branch reads \<^verbatim>\<open>azure_kwargs['model']\<close>.
\<close>

definition completion_attempt :: "world \<Rightarrow> nat \<Rightarrow> pydict \<Rightarrow> call list \<times> (exc + string)" where
  "completion_attempt w k kwargs =
     (case kwargs_model kwargs of
        Inl e \<Rightarrow> ([], Inl e)
      | Inr mdl \<Rightarrow>
          if startswith mdl ''azure/''
             \<or> (truthy_str (getenv w ''AZURE_OPENAI_API_KEY'') \<and> \<not> startswith mdl ''ollama/'')
          then
            (case setup_azure_configuration w kwargs of
               Inl e \<Rightarrow> ([Call_setup_azure_configuration kwargs], Inl e)
             | Inr azure_kwargs \<Rightarrow>
                 (case map_of azure_kwargs ''model'' of
                    None \<Rightarrow> ([Call_setup_azure_configuration kwargs], Inl (KeyError ''model''))
                  | Some m \<Rightarrow>
                      ([Call_setup_azure_configuration kwargs, Call_acompletion azure_kwargs],
                       first_choice (acompletion w k azure_kwargs))))
          else if startswith mdl ''ollama/''
          then ([Call_acompletion kwargs], first_choice (acompletion w k kwargs))
          else ([Call_acompletion kwargs], first_choice (acompletion w k kwargs)))"

definition completion_with_backoff :: "world \<Rightarrow> pydict \<Rightarrow> string retried" where
  "completion_with_backoff w kwargs =
     AsyncRetrying 3 completion_retry (\<lambda>k. snd (completion_attempt w k kwargs)) 1"

text \<open>
  \<^verbatim>\<open>ollama_with_backoff\<close>; \<open>opts\<close> is \<^verbatim>\<open>(options or OllamaOptions()).to_dict()\<close>.
\<close>

definition ollama_with_backoff ::
  "world \<Rightarrow> string \<Rightarrow> pydict list \<Rightarrow> string option \<Rightarrow> pyval \<Rightarrow> string option \<Rightarrow> string retried" where
  "ollama_with_backoff w model_name messages fmt opts api_base =
     AsyncRetrying 3 retry_if_exception_type
       (\<lambda>k. ollama_chat w k
              \<lparr>host = api_base, ollama_model = str_replace ''ollama/'' [] model_name,
               ollama_messages = messages, format = fmt, options = opts\<rparr>) 1"



subsection \<open>convert\_docx\_to\_xml\<close>

text \<open>A record of \<^verbatim>\<open>logging.error\<close>: the text before the exception, and the exception.\<close>

datatype log_record = LogError string exc

text \<open>
  Iterating over a \<^verbatim>\<open>str\<close> yields its characters, each a \<^verbatim>\<open>str\<close> of length one.
\<close>

definition str_iter :: "string \<Rightarrow> string list" where
  "str_iter s = map (\<lambda>c. [c]) s"

text \<open>\<^verbatim>\<open>if value:\<close> on a property value: \<^verbatim>\<open>None\<close> and the empty string are skipped.\<close>

definition property_element :: "string \<times> string option \<Rightarrow> string" where
  "property_element kv =
     (case kv of (key, val) \<Rightarrow>
        if truthy_str val
        then ''<'' @ key @ ''>'' @ the val @ ''</'' @ key @ ''>'' @ [newline]
        else [])"

definition paragraph_element :: "string \<Rightarrow> string" where
  "paragraph_element paragraph =
     (if paragraph \<noteq> [] then ''<paragraph>'' @ paragraph @ ''</paragraph>'' @ [newline] else [])"

text \<open>
  \<^verbatim>\<open>convert_docx_to_xml\<close>: what it logs and its outcome. The second loop is
  \<^verbatim>\<open>for paragraph in docx_content.text\<close>.
\<close>

definition convert_docx_to_xml :: "world \<Rightarrow> string \<Rightarrow> log_record list \<times> (exc + string)" where
  "convert_docx_to_xml w file_path =
     (case docx2python w file_path of
        Inl e \<Rightarrow> ([LogError ''Error converting DOCX to XML: '' e], Inl e)
      | Inr content \<Rightarrow>
          ([], Inr (''<?xml version='1.0' encoding='UTF-8'?>'' @ [newline]
                    @ ''<document>'' @ [newline]
                    @ ''<metadata>'' @ [newline]
                    @ concat (map property_element (docx_properties content))
                    @ ''</metadata>'' @ [newline]
                    @ ''<content>'' @ [newline]
                    @ concat (map paragraph_element (str_iter (docx_text content)))
                    @ ''</content>'' @ [newline]
                    @ ''</document>'')))"

subsection \<open>generate\_text\<close>

text \<open>
  \<^verbatim>\<open>supports_json = model_info and model_info.constraints.supports_JSON_output\<close>
\<close>

definition supports_json :: "string \<Rightarrow> bool" where
  "supports_json model_name =
     (case get_model_info model_name of
        None \<Rightarrow> False
      | Some info \<Rightarrow> supports_JSON_output (constraints info))"

text \<open>The first \<^verbatim>\<open>kwargs\<close>, with \<^verbatim>\<open>kwargs.pop("temperature")\<close> for the reasoner.\<close>

definition base_kwargs :: "pydict list \<Rightarrow> string \<Rightarrow> real \<Rightarrow> int \<Rightarrow> pydict" where
  "base_kwargs messages model_name temp max_toks =
     (let kwargs = [(''model'', PyStr model_name),
                    (''max_tokens'', PyInt max_toks),
                    (''messages'', PyList (map PyDict messages)),
                    (''temperature'', PyFloat temp)]
      in if model_name = ''deepseek/deepseek-reasoner''
         then AList.delete ''temperature'' kwargs else kwargs)"

text \<open>
  The \<^verbatim>\<open>if/elif/elif\<close> over \<^verbatim>\<open>output_json_schema\<close> and \<^verbatim>\<open>output_schema\<close>,
  then \<^verbatim>\<open>output_json_schema["additionalProperties"] = False\<close>. A blank
  \<^verbatim>\<open>output_json_schema\<close> matches no branch and stays a \<^verbatim>\<open>str\<close>; the item
  assignment raises \<^verbatim>\<open>TypeError\<close> on everything that is not a dictionary. The
  result is \<^verbatim>\<open>output_schema\<close> and the dictionary \<^verbatim>\<open>output_json_schema\<close>.
\<close>

definition resolve_schema ::
  "world \<Rightarrow> string option \<Rightarrow> pydict option \<Rightarrow> exc + (pydict option \<times> pydict)" where
  "resolve_schema w output_json_schema output_schema =
     (case (case output_json_schema of
              None \<Rightarrow>
                (case output_schema of
                   None \<Rightarrow>
                     Inr (Some [(''output'', PyStr ''string'')],
                          PyDict [(''type'', PyStr ''object''),
                                  (''properties'',
                                     PyDict [(''output'', PyDict [(''type'', PyStr ''string'')])]),
                                  (''required'', PyList [PyStr ''output''])])
                 | Some sch \<Rightarrow> Inr (output_schema, convert_output_schema_to_json_schema sch))
            | Some txt \<Rightarrow>
                if strip txt \<noteq> []
                then (case json_loads w txt of
                        None \<Rightarrow> Inl JSONDecodeError
                      | Some v \<Rightarrow> Inr (output_schema, v))
                else Inr (output_schema, PyStr txt)) of
        Inl e \<Rightarrow> Inl e
      | Inr (output_schema', v) \<Rightarrow>
          (case v of
             PyDict d \<Rightarrow> Inr (output_schema', AList.update ''additionalProperties'' (PyBool False) d)
           | _ \<Rightarrow> Inl TypeError))"

definition schema_prompt :: string where
  "schema_prompt = newline #
     ''You must respond with valid JSON only. No other text before or after the JSON Object. The JSON Object must adhere to this schema: ''"

text \<open>
  \<^verbatim>\<open>system_message = next(message for message in messages if message["role"] == "system")\<close>
  followed by \<^verbatim>\<open>system_message["content"] += extra\<close>. The message found is an
  element of \<^verbatim>\<open>messages\<close>, so the list sees the new content. An exhausted generator
  ends the coroutine with \<^verbatim>\<open>RuntimeError\<close>. On a list, \<^verbatim>\<open>+=\<close> appends the
  characters of the string.
\<close>

fun append_to_system :: "string \<Rightarrow> pydict list \<Rightarrow> exc + pydict list" where
  "append_to_system extra [] = Inl RuntimeError"
| "append_to_system extra (m # ms) =
     (case map_of m ''role'' of
        None \<Rightarrow> Inl (KeyError ''role'')
      | Some r \<Rightarrow>
          if r = PyStr ''system''
          then (case map_of m ''content'' of
                  None \<Rightarrow> Inl (KeyError ''content'')
                | Some (PyStr c) \<Rightarrow> Inr (AList.update ''content'' (PyStr (c @ extra)) m # ms)
                | Some (PyList l) \<Rightarrow>
                    Inr (AList.update ''content'' (PyList (l @ map PyStr (str_iter extra))) m # ms)
                | Some _ \<Rightarrow> Inl TypeError)
          else (case append_to_system extra ms of
                  Inl e \<Rightarrow> Inl e
                | Inr ms' \<Rightarrow> Inr (m # ms')))"

text \<open>Truth of an \<^verbatim>\<open>Optional\<close> dictionary or list: \<^verbatim>\<open>None\<close> and the empty one are false.\<close>

definition truthy_list :: "'a list option \<Rightarrow> bool" where
  "truthy_list v = (case v of None \<Rightarrow> False | Some l \<Rightarrow> l \<noteq> [])"

text \<open>
  Lines 516 to 578: the request. The result is \<^verbatim>\<open>kwargs\<close> and \<^verbatim>\<open>messages\<close>;
  \<^verbatim>\<open>kwargs["messages"]\<close> is the same list object as \<^verbatim>\<open>messages\<close>, so it is
  written again when a message changes.
\<close>

definition generate_text_request ::
  "world \<Rightarrow> pydict list \<Rightarrow> string \<Rightarrow> real \<Rightarrow> int \<Rightarrow> string option \<Rightarrow> pydict option
     \<Rightarrow> exc + (pydict \<times> pydict list)" where
  "generate_text_request w messages model_name temp max_toks output_json_schema output_schema =
     (let kwargs = base_kwargs messages model_name temp max_toks in
      if \<not> supports_json model_name then Inr (kwargs, messages)
      else
        case resolve_schema w output_json_schema output_schema of
          Inl e \<Rightarrow> Inl e
        | Inr (output_schema', json_schema) \<Rightarrow>
            if ''response_format'' \<in> set (get_supported_openai_params w model_name)
            then
              if supports_response_schema w model_name
              then
                let json_schema' =
                      (if map_of json_schema ''name'' = None \<and> map_of json_schema ''schema'' = None
                       then [(''schema'', PyDict json_schema),
                             (''strict'', PyBool True),
                             (''name'', PyStr ''output'')]
                       else json_schema)
                in Inr (AList.update ''response_format''
                          (PyDict [(''type'', PyStr ''json_schema''),
                                   (''json_schema'', PyDict json_schema')]) kwargs,
                        messages)
              else
                let kwargs' = AList.update ''response_format''
                                (PyDict [(''type'', PyStr ''json_object'')]) kwargs;
                    schema_for_prompt =
                      (if truthy_list output_schema' then json_dumps w (PyDict (the output_schema'))
                       else if json_schema \<noteq> [] then json_dumps w (PyDict json_schema)
                       else json_dumps w (PyDict [(''output'', PyStr ''string'')]))
                in case append_to_system (schema_prompt @ schema_for_prompt) messages of
                     Inl e \<Rightarrow> Inl e
                   | Inr messages' \<Rightarrow>
                       Inr (AList.update ''messages'' (PyList (map PyDict messages')) kwargs',
                            messages')
            else Inr (kwargs, messages))"

text \<open>
  \<^verbatim>\<open>s.lower()\<close>: the capital letters below 256 are A to Z and U+00C0 to U+00DE
  without the multiplication sign U+00D7; each has its small letter 32 places on.
\<close>

definition lower_char :: "char \<Rightarrow> char" where
  "lower_char c =
     (if (65 \<le> (of_char c :: nat) \<and> (of_char c :: nat) \<le> 90)
         \<or> (192 \<le> (of_char c :: nat) \<and> (of_char c :: nat) \<le> 222 \<and> (of_char c :: nat) \<noteq> 215)
      then char_of (of_char c + 32 :: nat) else c)"

definition lower :: "string \<Rightarrow> string" where
  "lower s = map lower_char s"

definition image_url_part :: "string \<Rightarrow> pyval" where
  "image_url_part url =
     PyDict [(''type'', PyStr ''image_url''), (''image_url'', PyDict [(''url'', PyStr url)])]"

text \<open>
  The inner loop of the Gemini branch, over \<^verbatim>\<open>url_variables.items()\<close>: the parts
  appended to \<^verbatim>\<open>content\<close>. Its \<^verbatim>\<open>except\<close> clause logs and raises again.
\<close>

fun url_parts :: "world \<Rightarrow> (string \<times> string) list \<Rightarrow> exc + pyval list" where
  "url_parts w [] = Inr []"
| "url_parts w ((key, url) # rest) =
     (case (if url = [] then Inr []
            else if is_external_url w url \<or> startswith url ''data:''
            then Inr [image_url_part url]
            else
              (case resolve_file_path w url of
                 Inl e \<Rightarrow> Inl e
               | Inr file_path \<Rightarrow>
                   (case (if endswith (lower file_path) ''.docx''
                          then (case snd (convert_docx_to_xml w file_path) of
                                  Inl e \<Rightarrow> Inl e
                                | Inr xml_content \<Rightarrow>
                                    Inr (''data:text/xml;base64,'' @ b64encode w xml_content))
                          else encode_file_to_base64_data_url w file_path) of
                      Inl e \<Rightarrow> Inl e
                    | Inr data_url \<Rightarrow> Inr [image_url_part data_url]))) of
        Inl e \<Rightarrow> Inl e
      | Inr ps \<Rightarrow>
          (case url_parts w rest of
             Inl e \<Rightarrow> Inl e
           | Inr qs \<Rightarrow> Inr (ps @ qs)))"

text \<open>The outer loop of the Gemini branch: \<^verbatim>\<open>transformed_messages\<close>.\<close>

fun transform_messages :: "world \<Rightarrow> (string \<times> string) list \<Rightarrow> pydict list \<Rightarrow> exc + pydict list" where
  "transform_messages w urls [] = Inr []"
| "transform_messages w urls (msg # msgs) =
     (case map_of msg ''role'' of
        None \<Rightarrow> Inl (KeyError ''role'')
      | Some r \<Rightarrow>
          (case (if r = PyStr ''user''
                 then (case map_of msg ''content'' of
                         None \<Rightarrow> Inl (KeyError ''content'')
                       | Some c \<Rightarrow>
                           (case url_parts w urls of
                              Inl e \<Rightarrow> Inl e
                            | Inr ps \<Rightarrow>
                                Inr (AList.update ''content''
                                       (PyList (PyDict [(''type'', PyStr ''text''), (''text'', c)] # ps))
                                       msg)))
                 else Inr msg) of
             Inl e \<Rightarrow> Inl e
           | Inr msg' \<Rightarrow>
               (case transform_messages w urls msgs of
                  Inl e \<Rightarrow> Inl e
                | Inr rest \<Rightarrow> Inr (msg' # rest))))"

definition json_only_message :: pydict where
  "json_only_message =
     [(''role'', PyStr ''system''),
      (''content'', PyStr ''You must respond with valid JSON only. No other text before or after the JSON Object.'')]"

text \<open>
  Lines 580 to 648: the call that yields \<^verbatim>\<open>raw_response\<close>. \<^verbatim>\<open>messages.insert\<close>
  changes the list \<^verbatim>\<open>kwargs["messages"]\<close> refers to.
\<close>

definition generate_text_call ::
  "world \<Rightarrow> bool \<Rightarrow> string \<Rightarrow> real \<Rightarrow> int \<Rightarrow> string option \<Rightarrow> (string \<times> string) list option
     \<Rightarrow> pydict \<Rightarrow> pydict list \<Rightarrow> exc + string" where
  "generate_text_call w json_mode model_name temp max_toks api_base url_variables kwargs messages =
     (if json_mode \<and> supports_json model_name
      then
        if startswith model_name ''ollama''
        then result (ollama_with_backoff w model_name messages (Some ''json'')
                       (OllamaOptions_to_dict w temp max_toks) api_base)
        else if startswith model_name ''gemini'' \<and> truthy_list url_variables
        then (case transform_messages w (the url_variables) messages of
                Inl e \<Rightarrow> Inl e
              | Inr transformed_messages \<Rightarrow>
                  result (completion_with_backoff w
                    (AList.update ''messages'' (PyList (map PyDict transformed_messages)) kwargs)))
        else result (completion_with_backoff w
               (AList.update ''messages'' (PyList (map PyDict (json_only_message # messages))) kwargs))
      else result (completion_with_backoff w kwargs))"

text \<open>
  \<^verbatim>\<open>response.replace('"', '\\"').replace("\n", "\\n")\<close> inside
  \<^verbatim>\<open>f'{{"output": "{sanitized_response}"}}'\<close>
\<close>

definition sanitize :: "string \<Rightarrow> string" where
  "sanitize response =
     str_replace [newline] [backslash, CHR ''n''] (str_replace [dquote] [backslash, dquote] response)"

definition wrap_output :: "string \<Rightarrow> string" where
  "wrap_output response =
     ''{'' @ [dquote] @ ''output'' @ [dquote] @ '': '' @ [dquote] @ sanitize response @ [dquote] @ ''}''"

text \<open>
  \<^verbatim>\<open>re.search(r"\{.*\}", response, re.DOTALL)\<close>: from the first opening brace to
  the last closing brace after it.
\<close>

definition search_braces :: "string \<Rightarrow> string option" where
  "search_braces s =
     (case dropWhile (\<lambda>c. c \<noteq> CHR ''{'') s of
        [] \<Rightarrow> None
      | b # rest \<Rightarrow>
          if CHR ''}'' \<in> set rest
          then Some (b # rev (dropWhile (\<lambda>c. c \<noteq> CHR ''}'') (rev rest)))
          else None)"

text \<open>
  Lines 650 to 694: what is returned for \<^verbatim>\<open>response\<close>. \<^verbatim>\<open>raw_response\<close> is a
  \<^verbatim>\<open>str\<close> on every path, and a \<^verbatim>\<open>str\<close> has no attribute \<^verbatim>\<open>choices\<close>: the
  two \<^verbatim>\<open>hasattr\<close> tests are false.
\<close>

definition generate_text_result :: "world \<Rightarrow> string \<Rightarrow> string \<Rightarrow> string" where
  "generate_text_result w model_name response =
     (if \<not> supports_json model_name then wrap_output response
      else
        case json_loads w response of
          Some v \<Rightarrow> response
        | None \<Rightarrow>
            if \<not> startswith response ''{''
            then (case search_braces response of
                    Some found \<Rightarrow>
                      (case json_loads w found of
                         Some v \<Rightarrow> found
                       | None \<Rightarrow> wrap_output found)
                  | None \<Rightarrow> wrap_output response)
            else wrap_output response)"

definition generate_text ::
  "world \<Rightarrow> pydict list \<Rightarrow> string \<Rightarrow> real \<Rightarrow> bool \<Rightarrow> int \<Rightarrow> string option
     \<Rightarrow> (string \<times> string) list option \<Rightarrow> string option \<Rightarrow> pydict option \<Rightarrow> exc + string" where
  "generate_text w messages model_name temp json_mode max_toks api_base url_variables
       output_json_schema output_schema =
     (case generate_text_request w messages model_name temp max_toks
             output_json_schema output_schema of
        Inl e \<Rightarrow> Inl e
      | Inr (kwargs, messages') \<Rightarrow>
          (case generate_text_call w json_mode model_name temp max_toks api_base url_variables
                  kwargs messages' of
             Inl e \<Rightarrow> Inl e
           | Inr response \<Rightarrow> Inr (generate_text_result w model_name response)))"

text \<open>
  The call lines 580 to 648 await, with its arguments: either
  \<^verbatim>\<open>ollama_with_backoff(model, options, messages, format, api_base)\<close>, which is not
  given \<^verbatim>\<open>kwargs\<close>, or \<^verbatim>\<open>completion_with_backoff(**kwargs)\<close>.
\<close>

datatype request =
    Ollama_request string "pydict list" "string option" pyval "string option"
  | Completion_request pydict

definition generate_text_dispatch ::
  "world \<Rightarrow> bool \<Rightarrow> string \<Rightarrow> real \<Rightarrow> int \<Rightarrow> string option \<Rightarrow> (string \<times> string) list option
     \<Rightarrow> pydict \<Rightarrow> pydict list \<Rightarrow> exc + request" where
  "generate_text_dispatch w json_mode model_name temp max_toks api_base url_variables kwargs messages =
     (if json_mode \<and> supports_json model_name
      then
        if startswith model_name ''ollama''
        then Inr (Ollama_request model_name messages (Some ''json'')
                    (OllamaOptions_to_dict w temp max_toks) api_base)
        else if startswith model_name ''gemini'' \<and> truthy_list url_variables
        then (case transform_messages w (the url_variables) messages of
                Inl e \<Rightarrow> Inl e
              | Inr transformed_messages \<Rightarrow>
                  Inr (Completion_request
                    (AList.update ''messages'' (PyList (map PyDict transformed_messages)) kwargs)))
        else Inr (Completion_request
               (AList.update ''messages'' (PyList (map PyDict (json_only_message # messages))) kwargs))
      else Inr (Completion_request kwargs))"

definition perform_request :: "world \<Rightarrow> request \<Rightarrow> exc + string" where
  "perform_request w r =
     (case r of
        Ollama_request model_name messages fmt opts api_base \<Rightarrow>
          result (ollama_with_backoff w model_name messages fmt opts api_base)
      | Completion_request kwargs \<Rightarrow> result (completion_with_backoff w kwargs))"

text \<open>The call a run of \<^verbatim>\<open>generate_text\<close> awaits: lines 516 to 578, then the choice.\<close>

definition generate_text_sent ::
  "world \<Rightarrow> pydict list \<Rightarrow> string \<Rightarrow> real \<Rightarrow> bool \<Rightarrow> int \<Rightarrow> string option
     \<Rightarrow> (string \<times> string) list option \<Rightarrow> string option \<Rightarrow> pydict option \<Rightarrow> exc + request" where
  "generate_text_sent w messages model_name temp json_mode max_toks api_base url_variables
       output_json_schema output_schema =
     (case generate_text_request w messages model_name temp max_toks
             output_json_schema output_schema of
        Inl e \<Rightarrow> Inl e
      | Inr (kwargs, messages') \<Rightarrow>
          generate_text_dispatch w json_mode model_name temp max_toks api_base url_variables
            kwargs messages')"

subsection \<open>Reading the wrapper's JSON\<close>

text \<open>
  What a JSON parser does with a text that begins as the wrapper's texts do: after
  \<^verbatim>\<open>{"output": "\<close> it reads a string (RFC 8259): a backslash starts an escape, a
  control character is not allowed (Python's \<^verbatim>\<open>json.loads\<close> is strict), an unescaped
  double quote ends the string. \<^verbatim>\<open>\uXXXX\<close> escapes are not read (the result is
  \<open>None\<close>). \<open>json_output_field\<close> is the decoded \<^verbatim>\<open>output\<close> of a text that is
  exactly one such member in braces.
\<close>

definition json_escape :: "char \<Rightarrow> char option" where
  "json_escape c =
     (if c = dquote then Some dquote
      else if c = backslash then Some backslash
      else if c = CHR ''/'' then Some (CHR ''/'')
      else if c = CHR ''b'' then Some (CHR 0x08)
      else if c = CHR ''f'' then Some (CHR 0x0C)
      else if c = CHR ''n'' then Some newline
      else if c = CHR ''r'' then Some (CHR 0x0D)
      else if c = CHR ''t'' then Some (CHR 0x09)
      else None)"

fun json_string_body :: "string \<Rightarrow> (string \<times> string) option" where
  "json_string_body [] = None"
| "json_string_body (c # cs) =
     (if c = dquote then Some ([], cs)
      else if c = backslash
      then (case cs of
              [] \<Rightarrow> None
            | e # cs' \<Rightarrow>
                (case json_escape e of
                   None \<Rightarrow> None
                 | Some d \<Rightarrow>
                     (case json_string_body cs' of
                        None \<Rightarrow> None
                      | Some (v, rest) \<Rightarrow> Some (d # v, rest))))
      else if (of_char c :: nat) < 32 then None
      else (case json_string_body cs of
              None \<Rightarrow> None
            | Some (v, rest) \<Rightarrow> Some (c # v, rest)))"

definition output_prefix :: string where
  "output_prefix = ''{'' @ [dquote] @ ''output'' @ [dquote] @ '': '' @ [dquote]"

definition json_output_field :: "string \<Rightarrow> string option" where
  "json_output_field s =
     (if prefix output_prefix s
      then (case json_string_body (drop (length output_prefix) s) of
              None \<Rightarrow> None
            | Some (v, rest) \<Rightarrow> if rest = ''}'' then Some v else None)
      else None)"

subsection \<open>Sample worlds\<close>

text \<open>A world in which nothing is configured and every provider answers \<^verbatim>\<open>ok\<close>.\<close>

definition quiet_world :: world where
  "quiet_world =
     \<lparr>getenv = (\<lambda>k. None),
      setup_azure_configuration = Inr,
      acompletion = (\<lambda>k kwargs. Inr [''ok'']),
      ollama_chat = (\<lambda>k req. Inr ''ok''),
      OllamaOptions_to_dict = (\<lambda>t n. PyDict []),
      json_loads = (\<lambda>s. None),
      json_dumps = (\<lambda>v. ''{}''),
      get_supported_openai_params = (\<lambda>m. []),
      supports_response_schema = (\<lambda>m. False),
      is_external_url = (\<lambda>u. False),
      resolve_file_path = Inr,
      docx2python = (\<lambda>path. Inl (OtherError ''no such file'')),
      b64encode = (\<lambda>s. s),
      encode_file_to_base64_data_url = Inr\<rparr>"

text \<open>A world whose provider raises \<open>e\<close> at every attempt.\<close>

definition refusing_world :: "exc \<Rightarrow> world" where
  "refusing_world e = quiet_world\<lparr>acompletion := (\<lambda>k kwargs. Inl e)\<rparr>"


text \<open>A world in which \<^verbatim>\<open>AZURE_OPENAI_API_KEY\<close> is set to \<open>v\<close>.\<close>

definition azure_key_world :: "string \<Rightarrow> world" where
  "azure_key_world v =
     quiet_world\<lparr>getenv := (\<lambda>k. if k = ''AZURE_OPENAI_API_KEY'' then Some v else None)\<rparr>"

text \<open>
  A world whose DOCX files all hold the text \<^verbatim>\<open>Hi\<close>, with a title, a subject that
  is \<^verbatim>\<open>None\<close> and an empty author.
\<close>

definition memo_docx :: docx_content where
  "memo_docx = \<lparr>docx_properties = [(''title'', Some ''Memo''), (''subject'', None), (''author'', Some [])],
                docx_text = ''Hi''\<rparr>"

definition memo_world :: world where
  "memo_world = quiet_world\<lparr>docx2python := (\<lambda>path. Inr memo_docx)\<rparr>"

text \<open>A world whose provider answers with a single backslash.\<close>

definition backslash_world :: world where
  "backslash_world = quiet_world\<lparr>acompletion := (\<lambda>k kwargs. Inr [[backslash]])\<rparr>"

text \<open>
  \<^verbatim>\<open>json.dumps\<close> on what the schemas of the samples are made of: strings without
  a character to escape, booleans, \<^verbatim>\<open>None\<close>, lists and dictionaries, with the
  separators \<^verbatim>\<open>", "\<close> and \<^verbatim>\<open>": "\<close>. Numbers do not occur in them; they
  are written as 0.
\<close>

fun join :: "string \<Rightarrow> string list \<Rightarrow> string" where
  "join sep [] = []"
| "join sep [x] = x"
| "join sep (x # y # ys) = x @ sep @ join sep (y # ys)"

fun schema_dumps :: "pyval \<Rightarrow> string" where
  "schema_dumps PyNone = ''null''"
| "schema_dumps (PyBool b) = (if b then ''true'' else ''false'')"
| "schema_dumps (PyInt n) = ''0''"
| "schema_dumps (PyFloat x) = ''0''"
| "schema_dumps (PyStr s) = [dquote] @ s @ [dquote]"
| "schema_dumps (PyList xs) = ''['' @ join '', '' (map schema_dumps xs) @ '']''"
| "schema_dumps (PyDict kvs) =
     ''{'' @ join '', '' (map (\<lambda>kv. [dquote] @ fst kv @ [dquote] @ '': '' @ schema_dumps (snd kv)) kvs)
       @ ''}''"

text \<open>
  A world whose providers support \<^verbatim>\<open>response_format\<close>, of which only
  \<^verbatim>\<open>openai/gpt-4o\<close> supports a response schema, whose \<^verbatim>\<open>json.loads\<close>
  reads the text \<^verbatim>\<open>{"name": "answer", "schema": {}}\<close> and whose
  \<^verbatim>\<open>json.dumps\<close> is the one above.
\<close>

definition named_schema_text :: string where
  "named_schema_text =
     ''{'' @ [dquote] @ ''name'' @ [dquote] @ '': '' @ [dquote] @ ''answer'' @ [dquote] @ '', ''
       @ [dquote] @ ''schema'' @ [dquote] @ '': {}}''"

definition schema_world :: world where
  "schema_world =
     quiet_world\<lparr>get_supported_openai_params := (\<lambda>m. [''temperature'', ''response_format'']),
                 supports_response_schema := (\<lambda>m. m = ''openai/gpt-4o''),
                 json_loads := (\<lambda>s. if s = named_schema_text
                                      then Some (PyDict [(''name'', PyStr ''answer''), (''schema'', PyDict [])])
                                      else None),
                 json_dumps := schema_dumps\<rparr>"

definition sample_messages :: "pydict list" where
  "sample_messages = [[(''role'', PyStr ''system''), (''content'', PyStr ''Be brief.'')],
                      [(''role'', PyStr ''user''), (''content'', PyStr ''hi'')]]"

text \<open>What the two replacements of \<open>sanitize\<close> do to one character.\<close>

definition escape_char :: "char \<Rightarrow> string" where
  "escape_char c = (if c = dquote then [backslash, dquote]
                    else if c = newline then [backslash, CHR ''n''] else [c])"

section \<open>Properties\<close>

subsection \<open>The model registry\<close>

text \<open>Every member but one has its entry, with its own id and the provider its id names.\<close>

lemma get_model_info_registered:
  assumes "m \<noteq> GEMINI_2_0_FLASH_EXP"
  shows "\<exists>info. get_model_info (LLMModels_value m) = Some info
           \<and> model_id info = LLMModels_value m
           \<and> LLMProvider_value (provider info) = provider_prefix (LLMModels_value m)"
  using assms
  by (cases m) (simp_all add: get_model_info_def model_registry_def entry_def provider_prefix_def)

text \<open>
  C1. Every member of \<^verbatim>\<open>LLMModels\<close> should have an entry in the registry of
  \<^verbatim>\<open>get_model_info\<close>. The member \<^verbatim>\<open>GEMINI_2_0_FLASH_EXP\<close> has none: the lookup
  of its value returns \<^verbatim>\<open>None\<close>.
\<close>

theorem get_model_info_gemini_2_0_flash_exp:
  "get_model_info (LLMModels_value GEMINI_2_0_FLASH_EXP) = None"
  by (simp add: get_model_info_def model_registry_def entry_def)

subsection \<open>ModelInfo\<close>

text \<open>The enum lookup by value finds exactly the values of the members, each at its member.\<close>

lemma LLMModels_of_value_value: "LLMModels_of_value (LLMModels_value mem) = Some mem"
  by (cases mem) (simp_all add: LLMModels_of_value_def LLMModels_members_def)

lemma of_value_iff: "LLMModels_of_value s \<noteq> None \<longleftrightarrow> (\<exists>m. LLMModels_value m = s)"
proof -
  have all: "m \<in> set LLMModels_members" for m
    by (cases m) (simp_all add: LLMModels_members_def)
  show ?thesis
    unfolding LLMModels_of_value_def find_None_iff using all by auto
qed

lemma validate_model_ok:
  "validate_model m \<noteq> None \<longleftrightarrow> (m = None \<or> (\<exists>mem. m = Some (PyStr (LLMModels_value mem))))"
proof (cases m)
  case None
  then show ?thesis by (simp add: validate_model_def)
next
  case (Some v)
  then show ?thesis
    using of_value_iff by (cases v) (auto simp: validate_model_def)
qed

lemma validate_max_tokens_ok:
  "validate_max_tokens py mt \<noteq> None \<longleftrightarrow>
     (mt = Some PyNone
      \<or> (\<exists>v n. mt = Some v \<and> v \<noteq> PyNone \<and> int_of py v = Some n \<and> 1 \<le> n \<and> n \<le> 65536))"
proof (cases mt)
  case None
  then show ?thesis by (simp add: validate_max_tokens_def)
next
  case (Some v)
  then show ?thesis
    by (cases v; cases "int_of py v") (simp_all add: validate_max_tokens_def)
qed

lemma validate_unit_float_ok:
  "validate_unit_float py d a \<noteq> None \<longleftrightarrow>
     (a = None \<or> a = Some PyNone
      \<or> (\<exists>v x. a = Some v \<and> v \<noteq> PyNone \<and> float_of py v = Some x \<and> 0 \<le> x \<and> x \<le> 1))"
proof (cases a)
  case None
  then show ?thesis by (simp add: validate_unit_float_def)
next
  case (Some v)
  then show ?thesis
    by (cases v; cases "float_of py v") (simp_all add: validate_unit_float_def)
qed

lemma validate_unit_float_value:
  assumes "validate_unit_float py d a = Some r"
  shows "(a = None \<longrightarrow> r = Some d) \<and> (a = Some PyNone \<longrightarrow> r = None)
         \<and> (\<forall>v. a = Some v \<and> v \<noteq> PyNone \<longrightarrow> r = float_of py v)"
proof (cases a)
  case None
  with assms show ?thesis by (simp add: validate_unit_float_def)
next
  case (Some v)
  with assms show ?thesis
    by (cases v; cases "float_of py v") (auto simp: validate_unit_float_def split: if_splits)
qed

lemma validate_max_tokens_value:
  assumes "validate_max_tokens py mt = Some r"
  shows "(mt = Some PyNone \<longrightarrow> r = None) \<and> (\<forall>v. mt = Some v \<and> v \<noteq> PyNone \<longrightarrow> r = int_of py v)"
proof (cases mt)
  case None
  with assms show ?thesis by (simp add: validate_max_tokens_def)
next
  case (Some v)
  with assms show ?thesis
    by (cases v; cases "int_of py v") (auto simp: validate_max_tokens_def split: if_splits)
qed

lemma validate_model_value:
  assumes "validate_model m = Some r"
  shows "(m = None \<longrightarrow> r = GPT_4O) \<and> (\<forall>mem. m = Some (PyStr (LLMModels_value mem)) \<longrightarrow> r = mem)"
  using assms by (auto simp: validate_model_def LLMModels_of_value_value)

text \<open>
  C6 (as amended). Constructing a \<^verbatim>\<open>ModelInfo\<close> succeeds exactly when the model
  is left out or is the value of a member of \<^verbatim>\<open>LLMModels\<close>, \<^verbatim>\<open>max_tokens\<close> is
  passed and is \<^verbatim>\<open>None\<close> or converts to an integer within 1..65536, and each of
  \<^verbatim>\<open>temperature\<close> and \<^verbatim>\<open>top_p\<close> is left out, \<^verbatim>\<open>None\<close> or converts to a
  number within 0.0..1.0. Every failure is a validation error. On success each field
  holds the converted value (\<^verbatim>\<open>None\<close> stays \<^verbatim>\<open>None\<close>), the model left out is
  \<^verbatim>\<open>GPT_4O\<close>, \<^verbatim>\<open>temperature\<close> left out is 0.7 and \<^verbatim>\<open>top_p\<close> left out is 1.0,
  each whatever the other arguments are.
\<close>

theorem ModelInfo_init_valid_iff:
  "((\<exists>info. ModelInfo_init py m mt t p = Inr info) \<longleftrightarrow>
      (m = None \<or> (\<exists>mem. m = Some (PyStr (LLMModels_value mem)))) \<and>
      (mt = Some PyNone
       \<or> (\<exists>v n. mt = Some v \<and> v \<noteq> PyNone \<and> int_of py v = Some n \<and> 1 \<le> n \<and> n \<le> 65536)) \<and>
      (t = None \<or> t = Some PyNone
       \<or> (\<exists>v x. t = Some v \<and> v \<noteq> PyNone \<and> float_of py v = Some x \<and> 0 \<le> x \<and> x \<le> 1)) \<and>
      (p = None \<or> p = Some PyNone
       \<or> (\<exists>v x. p = Some v \<and> v \<noteq> PyNone \<and> float_of py v = Some x \<and> 0 \<le> x \<and> x \<le> 1)))
   \<and> (\<forall>e. ModelInfo_init py m mt t p = Inl e \<longrightarrow> e = ValidationError)
   \<and> (\<forall>info. ModelInfo_init py m mt t p = Inr info \<longrightarrow>
          (m = None \<longrightarrow> model info = GPT_4O)
        \<and> (\<forall>mem. m = Some (PyStr (LLMModels_value mem)) \<longrightarrow> model info = mem)
        \<and> (mt = Some PyNone \<longrightarrow> max_tokens info = None)
        \<and> (\<forall>v. mt = Some v \<and> v \<noteq> PyNone \<longrightarrow> max_tokens info = int_of py v)
        \<and> (t = None \<longrightarrow> temperature info = Some 0.7)
        \<and> (t = Some PyNone \<longrightarrow> temperature info = None)
        \<and> (\<forall>v. t = Some v \<and> v \<noteq> PyNone \<longrightarrow> temperature info = float_of py v)
        \<and> (p = None \<longrightarrow> top_p info = Some 1.0)
        \<and> (p = Some PyNone \<longrightarrow> top_p info = None)
        \<and> (\<forall>v. p = Some v \<and> v \<noteq> PyNone \<longrightarrow> top_p info = float_of py v))"
proof (intro conjI)
  have "(\<exists>info. ModelInfo_init py m mt t p = Inr info) \<longleftrightarrow>
      validate_model m \<noteq> None \<and> validate_max_tokens py mt \<noteq> None
      \<and> validate_unit_float py 0.7 t \<noteq> None \<and> validate_unit_float py 1.0 p \<noteq> None"
    by (auto simp: ModelInfo_init_def split: option.splits)
  then show "(\<exists>info. ModelInfo_init py m mt t p = Inr info) \<longleftrightarrow>
      (m = None \<or> (\<exists>mem. m = Some (PyStr (LLMModels_value mem)))) \<and>
      (mt = Some PyNone
       \<or> (\<exists>v n. mt = Some v \<and> v \<noteq> PyNone \<and> int_of py v = Some n \<and> 1 \<le> n \<and> n \<le> 65536)) \<and>
      (t = None \<or> t = Some PyNone
       \<or> (\<exists>v x. t = Some v \<and> v \<noteq> PyNone \<and> float_of py v = Some x \<and> 0 \<le> x \<and> x \<le> 1)) \<and>
      (p = None \<or> p = Some PyNone
       \<or> (\<exists>v x. p = Some v \<and> v \<noteq> PyNone \<and> float_of py v = Some x \<and> 0 \<le> x \<and> x \<le> 1))"
    unfolding validate_model_ok validate_max_tokens_ok validate_unit_float_ok by simp
next
  show "\<forall>e. ModelInfo_init py m mt t p = Inl e \<longrightarrow> e = ValidationError"
    by (auto simp: ModelInfo_init_def split: option.splits)
next
  show "\<forall>info. ModelInfo_init py m mt t p = Inr info \<longrightarrow>
          (m = None \<longrightarrow> model info = GPT_4O)
        \<and> (\<forall>mem. m = Some (PyStr (LLMModels_value mem)) \<longrightarrow> model info = mem)
        \<and> (mt = Some PyNone \<longrightarrow> max_tokens info = None)
        \<and> (\<forall>v. mt = Some v \<and> v \<noteq> PyNone \<longrightarrow> max_tokens info = int_of py v)
        \<and> (t = None \<longrightarrow> temperature info = Some 0.7)
        \<and> (t = Some PyNone \<longrightarrow> temperature info = None)
        \<and> (\<forall>v. t = Some v \<and> v \<noteq> PyNone \<longrightarrow> temperature info = float_of py v)
        \<and> (p = None \<longrightarrow> top_p info = Some 1.0)
        \<and> (p = Some PyNone \<longrightarrow> top_p info = None)
        \<and> (\<forall>v. p = Some v \<and> v \<noteq> PyNone \<longrightarrow> top_p info = float_of py v)"
  proof (intro allI impI)
    fix info
    assume ok: "ModelInfo_init py m mt t p = Inr info"
    then obtain m' mt' t' p' where
      vm: "validate_model m = Some m'" and vt: "validate_max_tokens py mt = Some mt'"
      and vu: "validate_unit_float py 0.7 t = Some t'" and vp: "validate_unit_float py 1.0 p = Some p'"
      and info: "info = \<lparr>model = m', max_tokens = mt', temperature = t', top_p = p'\<rparr>"
      by (auto simp: ModelInfo_init_def split: option.splits)
    show "(m = None \<longrightarrow> model info = GPT_4O)
        \<and> (\<forall>mem. m = Some (PyStr (LLMModels_value mem)) \<longrightarrow> model info = mem)
        \<and> (mt = Some PyNone \<longrightarrow> max_tokens info = None)
        \<and> (\<forall>v. mt = Some v \<and> v \<noteq> PyNone \<longrightarrow> max_tokens info = int_of py v)
        \<and> (t = None \<longrightarrow> temperature info = Some 0.7)
        \<and> (t = Some PyNone \<longrightarrow> temperature info = None)
        \<and> (\<forall>v. t = Some v \<and> v \<noteq> PyNone \<longrightarrow> temperature info = float_of py v)
        \<and> (p = None \<longrightarrow> top_p info = Some 1.0)
        \<and> (p = Some PyNone \<longrightarrow> top_p info = None)
        \<and> (\<forall>v. p = Some v \<and> v \<noteq> PyNone \<longrightarrow> top_p info = float_of py v)"
      using validate_model_value[OF vm] validate_max_tokens_value[OF vt]
            validate_unit_float_value[OF vu] validate_unit_float_value[OF vp]
      by (simp add: info)
  qed
qed

theorem ModelInfo_init_valid_iff_witness:
  "ModelInfo_init numbers_only None (Some (PyInt 4096)) None (Some (PyFloat 0.9)) =
     Inr \<lparr>model = GPT_4O, max_tokens = Some 4096, temperature = Some 0.7, top_p = Some 0.9\<rparr>
   \<and> ModelInfo_init numbers_only (Some (PyStr ''openai/o1'')) (Some PyNone) (Some (PyFloat 0.25)) None =
     Inr \<lparr>model = O1, max_tokens = None, temperature = Some 0.25, top_p = Some 1.0\<rparr>
   \<and> ModelInfo_init numbers_only None (Some (PyStr ''abc'')) None None = Inl ValidationError
   \<and> ModelInfo_init numbers_only None (Some (PyInt 0)) None None = Inl ValidationError"
  using ModelInfo_init_valid_iff [of numbers_only None "Some (PyInt 4096)" None "Some (PyFloat 0.9)"]
        ModelInfo_init_valid_iff [of numbers_only None "Some (PyStr ''abc'')" None None]
  by (simp add: ModelInfo_init_def validate_model_def validate_max_tokens_def
        validate_unit_float_def numbers_only_def LLMModels_of_value_def LLMModels_members_def)

text \<open>
  C6 as stated fails: with every number inside its bounds the constructor still raises
  a validation error when the model is not a value of the enum.
\<close>

theorem ModelInfo_init_rejects_unknown_model:
  "ModelInfo_init numbers_only (Some (PyStr ''openai/gpt-5'')) (Some (PyInt 100))
       (Some (PyFloat 0.5)) (Some (PyFloat 0.5)) = Inl ValidationError
   \<and> \<not> ((100::int) < 1 \<or> (100::int) > 65536 \<or> (0.5::real) < 0.0 \<or> (0.5::real) > 1.0)"
  by (simp add: ModelInfo_init_def validate_model_def LLMModels_of_value_def LLMModels_members_def)

subsection \<open>create\_messages\<close>

text \<open>The loop appends one pair for each example that has both keys.\<close>

lemma append_examples_ok:
  "\<forall>ex \<in> set exs. map_of ex ''input'' \<noteq> None \<and> map_of ex ''output'' \<noteq> None \<Longrightarrow>
   append_examples ms exs = Inr (ms @ concat (map example_pair exs))"
  by (induction exs arbitrary: ms) (auto simp: example_pair_def)

text \<open>
  C8 (as amended). When every few-shot example has the keys \<^verbatim>\<open>input\<close> and
  \<^verbatim>\<open>output\<close>, \<^verbatim>\<open>create_messages\<close> returns the system message, then each
  example as a user/assistant pair in order, then the history in order, then the user
  message: a list of length 1 + 2 * len(few\_shot\_examples) + len(history) + 1.
\<close>

theorem create_messages_shape:
  assumes "\<forall>ex \<in> set (opt_list few_shot_examples).
             map_of ex ''input'' \<noteq> None \<and> map_of ex ''output'' \<noteq> None"
  shows "\<exists>messages. create_messages system_message user_message few_shot_examples history = Inr messages
    \<and> messages = [[(''role'', ''system''), (''content'', system_message)]]
         @ concat (map example_pair (opt_list few_shot_examples))
         @ opt_list history
         @ [[(''role'', ''user''), (''content'', user_message)]]
    \<and> length messages = 1 + 2 * length (opt_list few_shot_examples) + length (opt_list history) + 1"
proof -
  have len: "length (concat (map example_pair xs)) = 2 * length xs" for xs
    by (induction xs) (simp_all add: example_pair_def)
  show ?thesis
  proof (cases few_shot_examples)
    case None
    then show ?thesis
      by (cases history; cases "the history") (simp_all add: create_messages_def opt_list_def)
  next
    case (Some exs)
    with assms have ok: "\<forall>ex \<in> set exs. map_of ex ''input'' \<noteq> None \<and> map_of ex ''output'' \<noteq> None"
      by (simp add: opt_list_def)
    show ?thesis
    proof (cases exs)
      case Nil
      with Some show ?thesis
        by (cases history; cases "the history") (simp_all add: create_messages_def opt_list_def)
    next
      case (Cons e es)
      have "append_examples [[(''role'', ''system''), (''content'', system_message)]] (e # es)
            = Inr ([[(''role'', ''system''), (''content'', system_message)]] @ concat (map example_pair (e # es)))"
        using append_examples_ok[OF ok] Cons by simp
      with Some Cons show ?thesis
        using len[of "e # es"]
        by (cases history; cases "the history")
           (simp_all add: create_messages_def opt_list_def del: append_examples.simps)
    qed
  qed
qed

theorem create_messages_shape_witness:
  "create_messages ''be brief'' ''3+3'' (Some [[(''input'', ''2+2''), (''output'', ''4'')]])
        (Some [[(''role'', ''user''), (''content'', ''hi'')]]) =
      Inr [[(''role'', ''system''), (''content'', ''be brief'')],
           [(''role'', ''user''), (''content'', ''2+2'')],
           [(''role'', ''assistant''), (''content'', ''4'')],
           [(''role'', ''user''), (''content'', ''hi'')],
           [(''role'', ''user''), (''content'', ''3+3'')]]"
proof -
  have h: "\<forall>ex \<in> set (opt_list (Some [[(''input'', ''2+2''), (''output'', ''4'')]])).
       map_of ex ''input'' \<noteq> None \<and> map_of ex ''output'' \<noteq> None"
    by (simp add: opt_list_def)
  show ?thesis
    using create_messages_shape [OF h, of "''be brief''" "''3+3''"
        "Some [[(''role'', ''user''), (''content'', ''hi'')]]"] h
    by (simp add: opt_list_def example_pair_def)
qed

text \<open>
  C8 as stated fails: an example without the key \<^verbatim>\<open>output\<close> makes the call raise
  \<^verbatim>\<open>KeyError\<close>, so no list is returned.
\<close>

theorem create_messages_missing_key:
  "create_messages ''be brief'' ''hello'' (Some [[(''input'', ''2+2'')]]) None = Inl (KeyError ''output'')
   \<and> \<not> (\<exists>messages. create_messages ''be brief'' ''hello'' (Some [[(''input'', ''2+2'')]]) None = Inr messages
            \<and> length messages = 1 + 2 * length [[(''input'', ''2+2'')]] + 0 + 1)"
  by (simp add: create_messages_def)

subsection \<open>convert\_output\_schema\_to\_json\_schema\<close>

text \<open>The loop over distinct keys: a recognized field adds a property, every field is required.\<close>

lemma update_fresh:
  "k \<notin> fst ` set al \<Longrightarrow> AList.update k v al = al @ [(k, v)]"
  by (induction al) auto

lemma fold_schema_step:
  "distinct (map fst os) \<Longrightarrow> fst ` set os \<inter> fst ` set props = {} \<Longrightarrow>
   fold schema_step os (props, req) =
     (props @ map (\<lambda>(k, t). (k, PyDict [(''type'', PyStr (the (recognized_type t)))]))
                (filter (\<lambda>(k, t). recognized_type t \<noteq> None) os),
      req @ map (\<lambda>(k, t). PyStr k) os)"
proof (induction os arbitrary: props req)
  case Nil
  then show ?case by simp
next
  case (Cons a os)
  obtain k t where a: "a = (k, t)" by (cases a)
  have fresh: "k \<notin> fst ` set props" using Cons.prems(2) a by auto
  have d: "distinct (map fst os)" and kn: "k \<notin> fst ` set os" using Cons.prems(1) a by auto
  show ?case
  proof (cases "recognized_type t")
    case None
    then have step: "schema_step a (props, req) = (props, req @ [PyStr k])"
      by (auto simp: schema_step_def a recognized_type_def split: if_splits)
    have "fst ` set os \<inter> fst ` set props = {}" using Cons.prems(2) by auto
    from Cons.IH[OF d this] show ?thesis using None by (simp add: step[unfolded a] a)
  next
    case (Some ty)
    then have step: "schema_step a (props, req) =
        (props @ [(k, PyDict [(''type'', PyStr ty)])], req @ [PyStr k])"
      using fresh
      by (auto simp: schema_step_def a recognized_type_def update_fresh split: if_splits)
    have "fst ` set os \<inter> fst ` set (props @ [(k, PyDict [(''type'', PyStr ty)])]) = {}"
      using Cons.prems(2) kn by auto
    from Cons.IH[OF d this] show ?thesis using Some by (simp add: step[unfolded a] a)
  qed
qed

text \<open>
  C10. For an input dictionary (its keys are distinct), the returned schema lists every
  key in \<^verbatim>\<open>required\<close> in order, has \<^verbatim>\<open>additionalProperties\<close> false, and its
  \<^verbatim>\<open>properties\<close> hold exactly the keys whose type name is recognized, each with
  the JSON type of that name: a key with another type name is required and has no property.
\<close>

theorem convert_output_schema_to_json_schema_shape:
  assumes "distinct (map fst output_schema)"
  shows "convert_output_schema_to_json_schema output_schema =
     PyDict [(''type'', PyStr ''object''),
             (''properties'',
                PyDict (map (\<lambda>(k, t). (k, PyDict [(''type'', PyStr (the (recognized_type t)))]))
                          (filter (\<lambda>(k, t). recognized_type t \<noteq> None) output_schema))),
             (''required'', PyList (map (\<lambda>(k, t). PyStr k) output_schema)),
             (''additionalProperties'', PyBool False)]"
  using fold_schema_step[OF assms, of "[]" "[]"]
  by (simp add: convert_output_schema_to_json_schema_def)

theorem convert_output_schema_to_json_schema_shape_witness:
  "distinct (map fst [(''title'', PyStr ''str''), (''tags'', PyStr ''list''), (''n'', PyStr ''integer'')])
   \<and> convert_output_schema_to_json_schema
        [(''title'', PyStr ''str''), (''tags'', PyStr ''list''), (''n'', PyStr ''integer'')] =
     PyDict [(''type'', PyStr ''object''),
             (''properties'',
                PyDict [(''title'', PyDict [(''type'', PyStr ''string'')]),
                        (''n'', PyDict [(''type'', PyStr ''integer'')])]),
             (''required'', PyList [PyStr ''title'', PyStr ''tags'', PyStr ''n'']),
             (''additionalProperties'', PyBool False)]"
proof -
  have d: "distinct (map fst [(''title'', PyStr ''str''), (''tags'', PyStr ''list''), (''n'', PyStr ''integer'')])"
    by simp
  show ?thesis
    using convert_output_schema_to_json_schema_shape[OF d] d
    by (simp add: recognized_type_def)
qed

subsection \<open>async\_retry and completion\_with\_backoff\<close>

text \<open>
  The \<^verbatim>\<open>retry\<close> callable of \<^verbatim>\<open>completion_with_backoff\<close> answers true on every
  retry call state; on the exception itself it would tell the three classes apart.
\<close>

lemma completion_retry_state [simp]: "completion_retry (RetryCallStateObj st)"
  by (simp add: completion_retry_def)

lemma completion_retry_on_exception:
  "completion_retry (ExceptionObj e :: 'a pyobj) \<longleftrightarrow>
     e \<notin> {AuthenticationError, ValueError, JSONDecodeError, ValidationError, RateLimitError}"
  by (auto simp: completion_retry_def is_ValueError_def)

text \<open>A wrapped call makes at least the attempt it starts with and never goes past the stop.\<close>

lemma AsyncRetrying_attempts:
  "k \<le> attempts (AsyncRetrying n retry f k) \<and> attempts (AsyncRetrying n retry f k) \<le> max n k"
proof (induction n retry f k rule: AsyncRetrying.induct)
  case (1 n retry f k)
  show ?case
  proof (cases "f k")
    case (Inr v)
    then show ?thesis by (simp add: AsyncRetrying.simps[of n retry f k])
  next
    case (Inl e)
    show ?thesis
    proof (cases "retry (RetryCallStateObj \<lparr>attempt_number = k, outcome = Inl e\<rparr>) \<and> \<not> n \<le> k")
      case True
      with 1[OF Inl] Inl show ?thesis
        by (simp add: AsyncRetrying.simps[of n retry f k])
    next
      case False
      with Inl show ?thesis
        by (auto simp: AsyncRetrying.simps[of n retry f k])
    qed
  qed
qed



lemma AsyncRetrying_always_failing:
  assumes "\<And>j. f j = Inl e" and "\<And>st. retry (RetryCallStateObj st)" and "k \<le> n"
  shows "AsyncRetrying n retry f k = \<lparr>attempts = n, result = Inl (RetryError e)\<rparr>"
  using assms(3)
proof (induction "n - k" arbitrary: k)
  case 0
  then have "k = n" by simp
  then show ?case by (subst AsyncRetrying.simps) (simp add: assms(1,2))
next
  case (Suc d)
  then have "k < n" "d = n - Suc k" "Suc k \<le> n" by simp_all
  with Suc.hyps(1)[of "Suc k"] show ?case
    by (subst AsyncRetrying.simps) (simp add: assms(1,2))
qed

lemma completion_with_backoff_second_attempt:
  assumes "snd (completion_attempt w 1 kwargs) = Inl e"
  shows "2 \<le> attempts (completion_with_backoff w kwargs)"
proof -
  have a: "snd (completion_attempt w (Suc 0) kwargs) = Inl e"
    using assms by simp
  have "completion_with_backoff w kwargs =
          AsyncRetrying 3 completion_retry (\<lambda>k. snd (completion_attempt w k kwargs)) (Suc 1)"
    unfolding completion_with_backoff_def
    by (subst AsyncRetrying.simps) (simp add: a)
  then show ?thesis
    using AsyncRetrying_attempts[of "Suc 1" 3 completion_retry "\<lambda>k. snd (completion_attempt w k kwargs)"]
    by simp
qed

text \<open>
  C2. An authentication, validation or rate-limit error should be raised again after one
  attempt. \<^verbatim>\<open>completion_with_backoff\<close> retries it like any other exception: when
  the provider raises \<open>e\<close> at every attempt, three attempts are made and the call ends
  in \<^verbatim>\<open>RetryError\<close>, for every \<open>e\<close>, \<^verbatim>\<open>AuthenticationError\<close>,
  \<^verbatim>\<open>ValueError\<close> and \<^verbatim>\<open>RateLimitError\<close> included.
\<close>

theorem completion_with_backoff_retries_every_error:
  "completion_with_backoff (refusing_world e) [(''model'', PyStr ''openai/gpt-4o'')] =
     \<lparr>attempts = 3, result = Inl (RetryError e)\<rparr>"
proof -
  have "snd (completion_attempt (refusing_world e) j [(''model'', PyStr ''openai/gpt-4o'')]) = Inl e" for j
    by (simp add: completion_attempt_def kwargs_model_def refusing_world_def quiet_world_def
        startswith_def truthy_str_def first_choice_def)
  then show ?thesis
    unfolding completion_with_backoff_def
    by (intro AsyncRetrying_always_failing) simp_all
qed



lemma wait_exponential_first_two:
  assumes "k = 1 \<or> k = 2"
  shows "wait_exponential 1 120 2 30 k = 30"
  using assms by (auto simp: wait_exponential_def)


text \<open>
  A strategy that drew from \<^verbatim>\<open>random.uniform(min, high)\<close> instead would wait
  exactly 30 seconds after each of the first two attempts, whatever the draw.
\<close>

lemma uniform_from_min_first_two:
  assumes "k = 1 \<or> k = 2"
  shows "uniform 30 (wait_exponential 1 120 2 30 k) d = 30"
  by (simp add: uniform_def wait_exponential_first_two[OF assms])





text \<open>
  C4 (as amended). One attempt of \<^verbatim>\<open>completion_with_backoff\<close> calls
  \<^verbatim>\<open>setup_azure_configuration\<close> exactly when the model name starts with
  \<^verbatim>\<open>azure/\<close>, or \<^verbatim>\<open>AZURE_OPENAI_API_KEY\<close> is set to a non-empty value and the
  model name does not start with \<^verbatim>\<open>ollama/\<close>; otherwise its only call is
  \<^verbatim>\<open>acompletion\<close> with the keyword arguments it was given.
\<close>

theorem completion_attempt_route:
  assumes "kwargs_model kwargs = Inr mdl"
  shows "(Call_setup_azure_configuration kwargs \<in> set (fst (completion_attempt w k kwargs)) \<longleftrightarrow>
            startswith mdl ''azure/''
            \<or> ((\<exists>v. getenv w ''AZURE_OPENAI_API_KEY'' = Some v \<and> v \<noteq> [])
                \<and> \<not> startswith mdl ''ollama/''))
       \<and> (Call_setup_azure_configuration kwargs \<notin> set (fst (completion_attempt w k kwargs)) \<longrightarrow>
            completion_attempt w k kwargs =
              ([Call_acompletion kwargs], first_choice (acompletion w k kwargs)))"
proof -
  have t: "truthy_str (getenv w ''AZURE_OPENAI_API_KEY'') \<longleftrightarrow>
             (\<exists>v. getenv w ''AZURE_OPENAI_API_KEY'' = Some v \<and> v \<noteq> [])"
    by (cases "getenv w ''AZURE_OPENAI_API_KEY''") (simp_all add: truthy_str_def)
  show ?thesis
    using assms unfolding completion_attempt_def t[symmetric]
    by (auto split: sum.splits option.splits)
qed

theorem completion_attempt_route_witness:
  "Call_setup_azure_configuration [(''model'', PyStr ''openai/gpt-4o'')]
     \<in> set (fst (completion_attempt (azure_key_world ''key-1'') 1 [(''model'', PyStr ''openai/gpt-4o'')]))
   \<and> completion_attempt quiet_world 1 [(''model'', PyStr ''ollama/phi4'')] =
       ([Call_acompletion [(''model'', PyStr ''ollama/phi4'')]], Inr ''ok'')"
proof -
  have m1: "kwargs_model [(''model'', PyStr ''openai/gpt-4o'')] = Inr ''openai/gpt-4o''"
    and m2: "kwargs_model [(''model'', PyStr ''ollama/phi4'')] = Inr ''ollama/phi4''"
    by (simp_all add: kwargs_model_def)
  show ?thesis
    using completion_attempt_route [OF m1, of "azure_key_world ''key-1''" 1]
          completion_attempt_route [OF m2, of quiet_world 1]
    by (simp add: azure_key_world_def quiet_world_def startswith_def first_choice_def)
qed

text \<open>
  C4 as stated fails: with \<^verbatim>\<open>AZURE_OPENAI_API_KEY\<close> set to the empty string and a
  model that is not an Ollama model, the Azure path is not taken.
\<close>

theorem completion_attempt_empty_key:
  "getenv (azure_key_world []) ''AZURE_OPENAI_API_KEY'' \<noteq> None
   \<and> \<not> startswith ''openai/gpt-4o'' ''ollama/''
   \<and> completion_attempt (azure_key_world []) 1 [(''model'', PyStr ''openai/gpt-4o'')] =
       ([Call_acompletion [(''model'', PyStr ''openai/gpt-4o'')]], Inr ''ok'')"
  by (simp add: completion_attempt_def kwargs_model_def azure_key_world_def quiet_world_def
      startswith_def truthy_str_def first_choice_def)

subsection \<open>generate\_text: the request\<close>

text \<open>
  The resolved schema: what it is when nothing is passed, that a blank
  \<^verbatim>\<open>output_json_schema\<close> raises, and the search for the system message.
\<close>

lemma resolve_schema_additionalProperties:
  assumes "resolve_schema w output_json_schema output_schema = Inr (output_schema', json_schema)"
  shows "map_of json_schema ''additionalProperties'' = Some (PyBool False)"
  using assms
  by (auto simp: resolve_schema_def update_conv' split: option.splits sum.splits if_splits pyval.splits)

lemma resolve_schema_default:
  "resolve_schema w None None =
     Inr (Some [(''output'', PyStr ''string'')],
          [(''type'', PyStr ''object''),
           (''properties'', PyDict [(''output'', PyDict [(''type'', PyStr ''string'')])]),
           (''required'', PyList [PyStr ''output'']),
           (''additionalProperties'', PyBool False)])"
  by (simp add: resolve_schema_def)

lemma resolve_schema_blank:
  "strip txt = [] \<Longrightarrow> resolve_schema w (Some txt) output_schema = Inl TypeError"
  by (simp add: resolve_schema_def)

lemma base_kwargs_no_response_format:
  "map_of (base_kwargs messages model_name temp max_toks) ''response_format'' = None"
  by (simp add: base_kwargs_def Let_def)

lemma append_to_system_found:
  assumes "\<forall>m \<in> set before. \<exists>r. map_of m ''role'' = Some r \<and> r \<noteq> PyStr ''system''"
      and "map_of sys ''role'' = Some (PyStr ''system'')"
      and "map_of sys ''content'' = Some (PyStr c)"
  shows "append_to_system extra (before @ sys # after) =
           Inr (before @ AList.update ''content'' (PyStr (c @ extra)) sys # after)"
  using assms by (induction before) auto

lemma supports_json_gpt_4o: "supports_json ''openai/gpt-4o''"
  by (simp add: supports_json_def get_model_info_def model_registry_def entry_def mk_constraints_def)

lemma supports_json_gpt_4_turbo: "supports_json ''openai/gpt-4-turbo''"
  by (simp add: supports_json_def get_model_info_def model_registry_def entry_def mk_constraints_def)

text \<open>
  What is left of \<^verbatim>\<open>output_schema\<close> after the schema is resolved; the awaited call
  is the one \<open>generate_text_dispatch\<close> names, and \<^verbatim>\<open>generate_text\<close> is that call
  followed by the treatment of its answer.
\<close>

lemma resolve_schema_output_schema:
  assumes "resolve_schema w output_json_schema output_schema = Inr (output_schema', json_schema)"
  shows "output_schema' =
           (if output_json_schema = None \<and> output_schema = None
            then Some [(''output'', PyStr ''string'')] else output_schema)"
  using assms
  by (auto simp: resolve_schema_def split: option.splits sum.splits if_splits pyval.splits)

lemma generate_text_call_dispatch:
  "generate_text_call w json_mode model_name temp max_toks api_base url_variables kwargs messages =
     (case generate_text_dispatch w json_mode model_name temp max_toks api_base url_variables
             kwargs messages of
        Inl e \<Rightarrow> Inl e
      | Inr r \<Rightarrow> perform_request w r)"
  by (simp add: generate_text_call_def generate_text_dispatch_def perform_request_def
      split: sum.splits)

lemma generate_text_sent_performed:
  "generate_text w messages model_name temp json_mode max_toks api_base url_variables
       output_json_schema output_schema =
     (case generate_text_sent w messages model_name temp json_mode max_toks api_base url_variables
             output_json_schema output_schema of
        Inl e \<Rightarrow> Inl e
      | Inr r \<Rightarrow>
          (case perform_request w r of
             Inl e \<Rightarrow> Inl e
           | Inr response \<Rightarrow> Inr (generate_text_result w model_name response)))"
  by (simp add: generate_text_def generate_text_sent_def generate_text_call_dispatch
      split: sum.splits prod.splits)

text \<open>
  The choice of the call leaves \<^verbatim>\<open>response_format\<close> as the request made it, and
  only the Ollama branch of \<^verbatim>\<open>json_mode\<close> leaves \<^verbatim>\<open>kwargs\<close> out.
\<close>

lemma dispatch_response_format:
  assumes "generate_text_dispatch w json_mode model_name temp max_toks api_base url_variables
             kwargs messages = Inr (Completion_request kwargs')"
  shows "map_of kwargs' ''response_format'' = map_of kwargs ''response_format''"
  using assms
  by (auto simp: generate_text_dispatch_def update_conv' split: if_splits sum.splits)

lemma dispatch_ollama:
  assumes "json_mode" and "supports_json model_name" and "startswith model_name ''ollama''"
  shows "generate_text_dispatch w json_mode model_name temp max_toks api_base url_variables
           kwargs messages =
         Inr (Ollama_request model_name messages (Some ''json'')
                (OllamaOptions_to_dict w temp max_toks) api_base)"
  using assms by (simp add: generate_text_dispatch_def)

lemma dispatch_completion:
  assumes "\<not> (json_mode \<and> startswith model_name ''ollama'')"
      and "generate_text_dispatch w json_mode model_name temp max_toks api_base url_variables
             kwargs messages = Inr r"
  shows "\<exists>kwargs'. r = Completion_request kwargs'"
  using assms
  by (auto simp: generate_text_dispatch_def split: if_splits sum.splits)

lemma dispatch_plain:
  "\<not> json_mode \<Longrightarrow>
   generate_text_dispatch w json_mode model_name temp max_toks api_base url_variables
     kwargs messages = Inr (Completion_request kwargs)"
  by (simp add: generate_text_dispatch_def)

text \<open>The two branches of the request, as equations.\<close>

lemma request_json_schema:
  assumes "supports_json model_name"
      and "''response_format'' \<in> set (get_supported_openai_params w model_name)"
      and "resolve_schema w output_json_schema output_schema = Inr (output_schema', json_schema)"
      and "supports_response_schema w model_name"
  shows "generate_text_request w messages model_name temp max_toks output_json_schema output_schema =
           Inr (AList.update ''response_format''
                  (PyDict [(''type'', PyStr ''json_schema''),
                           (''json_schema'',
                              PyDict (if map_of json_schema ''name'' = None
                                         \<and> map_of json_schema ''schema'' = None
                                      then [(''schema'', PyDict json_schema),
                                            (''strict'', PyBool True),
                                            (''name'', PyStr ''output'')]
                                      else json_schema))])
                  (base_kwargs messages model_name temp max_toks),
                messages)"
  using assms by (simp add: generate_text_request_def Let_def)

lemma request_json_object:
  assumes "supports_json model_name"
      and "''response_format'' \<in> set (get_supported_openai_params w model_name)"
      and "resolve_schema w output_json_schema output_schema = Inr (output_schema', json_schema)"
      and "\<not> supports_response_schema w model_name"
      and "\<forall>m \<in> set before. \<exists>r. map_of m ''role'' = Some r \<and> r \<noteq> PyStr ''system''"
      and "map_of sys ''role'' = Some (PyStr ''system'')"
      and "map_of sys ''content'' = Some (PyStr c)"
      and "sys' = AList.update ''content''
                    (PyStr (c @ schema_prompt
                              @ json_dumps w
                                  (PyDict (if output_json_schema = None \<and> output_schema = None
                                           then [(''output'', PyStr ''string'')]
                                           else if truthy_list output_schema then the output_schema
                                           else json_schema)))) sys"
  shows "generate_text_request w (before @ sys # after) model_name temp max_toks
           output_json_schema output_schema =
           Inr (AList.update ''messages'' (PyList (map PyDict (before @ sys' # after)))
                  (AList.update ''response_format'' (PyDict [(''type'', PyStr ''json_object'')])
                     (base_kwargs (before @ sys # after) model_name temp max_toks)),
                before @ sys' # after)"
proof -
  have ne: "json_schema \<noteq> []"
    using resolve_schema_additionalProperties[OF assms(3)] by auto
  have os: "output_schema' =
           (if output_json_schema = None \<and> output_schema = None
            then Some [(''output'', PyStr ''string'')] else output_schema)"
    by (rule resolve_schema_output_schema[OF assms(3)])
  define extra where "extra = schema_prompt
      @ json_dumps w (PyDict (if truthy_list output_schema' then the output_schema' else json_schema))"
  have ex: "extra = schema_prompt
              @ json_dumps w
                  (PyDict (if output_json_schema = None \<and> output_schema = None
                           then [(''output'', PyStr ''string'')]
                           else if truthy_list output_schema then the output_schema
                           else json_schema))"
    unfolding extra_def os by (simp add: truthy_list_def)
  have found: "append_to_system extra (before @ sys # after) = Inr (before @ sys' # after)"
    using append_to_system_found[OF assms(5,6,7), of extra after] assms(8) ex by simp
  show ?thesis
    using assms(1,2,3,4) ne found
    by (cases "truthy_list output_schema'")
       (simp_all add: generate_text_request_def Let_def extra_def)
qed

text \<open>
  C5 (as amended). For a model that supports JSON output and a provider that supports
  \<^verbatim>\<open>response_format\<close>, with \<open>json_schema\<close> the resolved
  \<^verbatim>\<open>output_json_schema\<close> (its \<^verbatim>\<open>additionalProperties\<close> is false):
  \<^item> if the provider supports a response schema, the \<^verbatim>\<open>response_format\<close> of the
    keyword arguments built, and of those passed to \<^verbatim>\<open>completion_with_backoff\<close>,
    is \<^verbatim>\<open>{"type": "json_schema", "json_schema": S}\<close>, where \<open>S\<close> is
    \<open>json_schema\<close> wrapped with \<^verbatim>\<open>strict=True\<close> and the name \<^verbatim>\<open>output\<close> when
    it has neither a key \<^verbatim>\<open>name\<close> nor a key \<^verbatim>\<open>schema\<close>, and \<open>json_schema\<close>
    as it is otherwise;
  \<^item> if the provider does not, and the first message with the role \<^verbatim>\<open>system\<close> has
    a string content, \<^verbatim>\<open>response_format\<close> is \<^verbatim>\<open>{"type": "json_object"}\<close> and
    that message gets a fixed sentence and a dump appended: of
    \<^verbatim>\<open>{"output": "string"}\<close> when neither schema argument is passed, of
    \<^verbatim>\<open>output_schema\<close> when that is a non-empty dictionary, of \<open>json_schema\<close>
    otherwise;
  \<^item> with \<^verbatim>\<open>json_mode\<close> and a model name that starts with \<^verbatim>\<open>ollama\<close> the call
    awaited is \<^verbatim>\<open>ollama_with_backoff\<close> with \<^verbatim>\<open>format="json"\<close>, and the keyword
    arguments with their \<^verbatim>\<open>response_format\<close> are not sent; in every other case the
    call is \<^verbatim>\<open>completion_with_backoff\<close>, without \<^verbatim>\<open>json_mode\<close> on exactly the
    keyword arguments built.
\<close>

theorem generate_text_request_response_format:
  assumes "supports_json model_name"
      and "''response_format'' \<in> set (get_supported_openai_params w model_name)"
      and "resolve_schema w output_json_schema output_schema = Inr (output_schema', json_schema)"
  shows "map_of json_schema ''additionalProperties'' = Some (PyBool False)
       \<and> (supports_response_schema w model_name \<longrightarrow>
            (\<exists>kwargs. generate_text_request w messages model_name temp max_toks
                         output_json_schema output_schema = Inr (kwargs, messages)
               \<and> map_of kwargs ''response_format'' =
                   Some (PyDict [(''type'', PyStr ''json_schema''),
                                 (''json_schema'',
                                    PyDict (if map_of json_schema ''name'' = None
                                               \<and> map_of json_schema ''schema'' = None
                                            then [(''schema'', PyDict json_schema),
                                                  (''strict'', PyBool True),
                                                  (''name'', PyStr ''output'')]
                                            else json_schema))]))
            \<and> (\<forall>sent. generate_text_sent w messages model_name temp json_mode max_toks api_base
                          url_variables output_json_schema output_schema
                        = Inr (Completion_request sent) \<longrightarrow>
                  map_of sent ''response_format'' =
                   Some (PyDict [(''type'', PyStr ''json_schema''),
                                 (''json_schema'',
                                    PyDict (if map_of json_schema ''name'' = None
                                               \<and> map_of json_schema ''schema'' = None
                                            then [(''schema'', PyDict json_schema),
                                                  (''strict'', PyBool True),
                                                  (''name'', PyStr ''output'')]
                                            else json_schema))])))
       \<and> (\<not> supports_response_schema w model_name
            \<and> messages = before @ sys # after
            \<and> (\<forall>m \<in> set before. \<exists>r. map_of m ''role'' = Some r \<and> r \<noteq> PyStr ''system'')
            \<and> map_of sys ''role'' = Some (PyStr ''system'')
            \<and> map_of sys ''content'' = Some (PyStr c) \<longrightarrow>
            (\<exists>kwargs sys'. generate_text_request w messages model_name temp max_toks
                         output_json_schema output_schema = Inr (kwargs, before @ sys' # after)
               \<and> map_of kwargs ''response_format'' = Some (PyDict [(''type'', PyStr ''json_object'')])
               \<and> map_of kwargs ''messages'' = Some (PyList (map PyDict (before @ sys' # after)))
               \<and> sys' = AList.update ''content''
                           (PyStr (c @ schema_prompt
                                     @ json_dumps w
                                         (PyDict (if output_json_schema = None \<and> output_schema = None
                                                  then [(''output'', PyStr ''string'')]
                                                  else if truthy_list output_schema
                                                  then the output_schema
                                                  else json_schema)))) sys)
            \<and> (\<forall>sent. generate_text_sent w messages model_name temp json_mode max_toks api_base
                          url_variables output_json_schema output_schema
                        = Inr (Completion_request sent) \<longrightarrow>
                  map_of sent ''response_format'' = Some (PyDict [(''type'', PyStr ''json_object'')])))
       \<and> (json_mode \<and> startswith model_name ''ollama'' \<longrightarrow>
            (\<forall>r. generate_text_sent w messages model_name temp json_mode max_toks api_base
                    url_variables output_json_schema output_schema = Inr r \<longrightarrow>
                 (\<exists>messages'. r = Ollama_request model_name messages' (Some ''json'')
                                   (OllamaOptions_to_dict w temp max_toks) api_base)))
       \<and> (\<not> (json_mode \<and> startswith model_name ''ollama'') \<longrightarrow>
            (\<forall>r. generate_text_sent w messages model_name temp json_mode max_toks api_base
                    url_variables output_json_schema output_schema = Inr r \<longrightarrow>
                 (\<exists>sent. r = Completion_request sent)))
       \<and> (\<not> json_mode \<longrightarrow>
            (\<forall>kwargs messages'. generate_text_request w messages model_name temp max_toks
                         output_json_schema output_schema = Inr (kwargs, messages') \<longrightarrow>
               generate_text_sent w messages model_name temp json_mode max_toks api_base
                 url_variables output_json_schema output_schema = Inr (Completion_request kwargs)))"
    (is "?A \<and> ?B \<and> ?C \<and> ?D \<and> ?E \<and> ?F")
proof -
  have A: ?A
    by (rule resolve_schema_additionalProperties[OF assms(3)])
  have B: ?B
  proof (intro impI conjI allI)
    assume srs: "supports_response_schema w model_name"
    note req = request_json_schema[OF assms srs, of messages temp max_toks]
    show "\<exists>kwargs. generate_text_request w messages model_name temp max_toks
                         output_json_schema output_schema = Inr (kwargs, messages)
               \<and> map_of kwargs ''response_format'' =
                   Some (PyDict [(''type'', PyStr ''json_schema''),
                                 (''json_schema'',
                                    PyDict (if map_of json_schema ''name'' = None
                                               \<and> map_of json_schema ''schema'' = None
                                            then [(''schema'', PyDict json_schema),
                                                  (''strict'', PyBool True),
                                                  (''name'', PyStr ''output'')]
                                            else json_schema))])"
      unfolding req by (simp add: update_conv')
    fix sent
    assume "generate_text_sent w messages model_name temp json_mode max_toks api_base
              url_variables output_json_schema output_schema = Inr (Completion_request sent)"
    then show "map_of sent ''response_format'' =
                   Some (PyDict [(''type'', PyStr ''json_schema''),
                                 (''json_schema'',
                                    PyDict (if map_of json_schema ''name'' = None
                                               \<and> map_of json_schema ''schema'' = None
                                            then [(''schema'', PyDict json_schema),
                                                  (''strict'', PyBool True),
                                                  (''name'', PyStr ''output'')]
                                            else json_schema))])"
      unfolding generate_text_sent_def req
      by (simp add: dispatch_response_format update_conv')
  qed
  have C: ?C
  proof (intro impI conjI allI)
    assume a: "\<not> supports_response_schema w model_name
            \<and> messages = before @ sys # after
            \<and> (\<forall>m \<in> set before. \<exists>r. map_of m ''role'' = Some r \<and> r \<noteq> PyStr ''system'')
            \<and> map_of sys ''role'' = Some (PyStr ''system'')
            \<and> map_of sys ''content'' = Some (PyStr c)"
    define sys' where "sys' = AList.update ''content''
                           (PyStr (c @ schema_prompt
                                     @ json_dumps w
                                         (PyDict (if output_json_schema = None \<and> output_schema = None
                                                  then [(''output'', PyStr ''string'')]
                                                  else if truthy_list output_schema
                                                  then the output_schema
                                                  else json_schema)))) sys"
    have req: "generate_text_request w messages model_name temp max_toks
                 output_json_schema output_schema =
           Inr (AList.update ''messages'' (PyList (map PyDict (before @ sys' # after)))
                  (AList.update ''response_format'' (PyDict [(''type'', PyStr ''json_object'')])
                     (base_kwargs messages model_name temp max_toks)),
                before @ sys' # after)"
      using request_json_object[OF assms, of before sys c sys' after temp max_toks] a sys'_def
      by simp
    show "\<exists>kwargs sys'. generate_text_request w messages model_name temp max_toks
                         output_json_schema output_schema = Inr (kwargs, before @ sys' # after)
               \<and> map_of kwargs ''response_format'' = Some (PyDict [(''type'', PyStr ''json_object'')])
               \<and> map_of kwargs ''messages'' = Some (PyList (map PyDict (before @ sys' # after)))
               \<and> sys' = AList.update ''content''
                           (PyStr (c @ schema_prompt
                                     @ json_dumps w
                                         (PyDict (if output_json_schema = None \<and> output_schema = None
                                                  then [(''output'', PyStr ''string'')]
                                                  else if truthy_list output_schema
                                                  then the output_schema
                                                  else json_schema)))) sys"
      unfolding req sys'_def[symmetric] by (simp add: update_conv')
    fix sent
    assume "generate_text_sent w messages model_name temp json_mode max_toks api_base
              url_variables output_json_schema output_schema = Inr (Completion_request sent)"
    then show "map_of sent ''response_format'' = Some (PyDict [(''type'', PyStr ''json_object'')])"
      unfolding generate_text_sent_def req
      by (simp add: dispatch_response_format update_conv')
  qed
  have D: ?D
    using assms(1)
    by (auto simp: generate_text_sent_def dispatch_ollama split: sum.splits)
  have E: ?E
  proof (intro impI allI)
    fix r
    assume n: "\<not> (json_mode \<and> startswith model_name ''ollama'')"
      and s: "generate_text_sent w messages model_name temp json_mode max_toks api_base
                url_variables output_json_schema output_schema = Inr r"
    from s obtain kwargs messages' where
      "generate_text_dispatch w json_mode model_name temp max_toks api_base url_variables
         kwargs messages' = Inr r"
      by (auto simp: generate_text_sent_def split: sum.splits)
    from dispatch_completion[OF n this] show "\<exists>sent. r = Completion_request sent" .
  qed
  have F: ?F
    by (simp add: generate_text_sent_def dispatch_plain)
  from A B C D E F show ?thesis by blast
qed

text \<open>The facts that evaluate a request in a sample world.\<close>

lemma supports_json_phi4: "supports_json ''ollama/phi4''"
  by (simp add: supports_json_def get_model_info_def model_registry_def entry_def mk_constraints_def)

lemmas request_eval =
  generate_text_sent_def generate_text_dispatch_def generate_text_request_def resolve_schema_def
  base_kwargs_def schema_world_def quiet_world_def sample_messages_def truthy_list_def Let_def
  convert_output_schema_to_json_schema_def schema_step_def startswith_def

theorem generate_text_request_response_format_witness:
  "generate_text_sent schema_world sample_messages ''openai/gpt-4o'' 0.5 False 100 None None None None =
     Inr (Completion_request
           [(''model'', PyStr ''openai/gpt-4o''),
            (''max_tokens'', PyInt 100),
            (''messages'', PyList (map PyDict sample_messages)),
            (''temperature'', PyFloat 0.5),
            (''response_format'',
               PyDict [(''type'', PyStr ''json_schema''),
                       (''json_schema'',
                          PyDict [(''schema'',
                                     PyDict [(''type'', PyStr ''object''),
                                             (''properties'',
                                                PyDict [(''output'', PyDict [(''type'', PyStr ''string'')])]),
                                             (''required'', PyList [PyStr ''output'']),
                                             (''additionalProperties'', PyBool False)]),
                                  (''strict'', PyBool True),
                                  (''name'', PyStr ''output'')])])])
   \<and> generate_text_sent schema_world sample_messages ''openai/gpt-4-turbo'' 0.5 False 100
        None None None None =
     Inr (Completion_request
           [(''model'', PyStr ''openai/gpt-4-turbo''),
            (''max_tokens'', PyInt 100),
            (''messages'',
               PyList [PyDict [(''role'', PyStr ''system''),
                               (''content'',
                                  PyStr (''Be brief.'' @ schema_prompt
                                           @ ''{'' @ [dquote] @ ''output'' @ [dquote] @ '': ''
                                           @ [dquote] @ ''string'' @ [dquote] @ ''}''))],
                       PyDict [(''role'', PyStr ''user''), (''content'', PyStr ''hi'')]]),
            (''temperature'', PyFloat 0.5),
            (''response_format'', PyDict [(''type'', PyStr ''json_object'')])])
   \<and> generate_text_sent schema_world sample_messages ''openai/gpt-4-turbo'' 0.5 False 100
        None None None (Some [(''title'', PyStr ''str'')]) =
     Inr (Completion_request
           [(''model'', PyStr ''openai/gpt-4-turbo''),
            (''max_tokens'', PyInt 100),
            (''messages'',
               PyList [PyDict [(''role'', PyStr ''system''),
                               (''content'',
                                  PyStr (''Be brief.'' @ schema_prompt
                                           @ ''{'' @ [dquote] @ ''title'' @ [dquote] @ '': ''
                                           @ [dquote] @ ''str'' @ [dquote] @ ''}''))],
                       PyDict [(''role'', PyStr ''user''), (''content'', PyStr ''hi'')]]),
            (''temperature'', PyFloat 0.5),
            (''response_format'', PyDict [(''type'', PyStr ''json_object'')])])
   \<and> generate_text_sent schema_world sample_messages ''openai/gpt-4-turbo'' 0.5 False 100
        None None (Some named_schema_text) None =
     Inr (Completion_request
           [(''model'', PyStr ''openai/gpt-4-turbo''),
            (''max_tokens'', PyInt 100),
            (''messages'',
               PyList [PyDict [(''role'', PyStr ''system''),
                               (''content'',
                                  PyStr (''Be brief.'' @ schema_prompt
                                           @ ''{'' @ [dquote] @ ''name'' @ [dquote] @ '': ''
                                           @ [dquote] @ ''answer'' @ [dquote] @ '', ''
                                           @ [dquote] @ ''schema'' @ [dquote] @ '': {}, ''
                                           @ [dquote] @ ''additionalProperties'' @ [dquote]
                                           @ '': false}''))],
                       PyDict [(''role'', PyStr ''user''), (''content'', PyStr ''hi'')]]),
            (''temperature'', PyFloat 0.5),
            (''response_format'', PyDict [(''type'', PyStr ''json_object'')])])
   \<and> generate_text_sent schema_world sample_messages ''ollama/phi4'' 0.5 True 100
        None None None None =
     Inr (Ollama_request ''ollama/phi4''
           [[(''role'', PyStr ''system''),
             (''content'',
                PyStr (''Be brief.'' @ schema_prompt
                         @ ''{'' @ [dquote] @ ''output'' @ [dquote] @ '': ''
                         @ [dquote] @ ''string'' @ [dquote] @ ''}''))],
            [(''role'', PyStr ''user''), (''content'', PyStr ''hi'')]]
           (Some ''json'') (PyDict []) None)"
    (is "?a \<and> ?b \<and> ?c \<and> ?d \<and> ?e")
proof -
  have rf: "''response_format'' \<in> set (get_supported_openai_params schema_world m)" for m
    by (simp add: schema_world_def quiet_world_def)
  have ne: "strip named_schema_text \<noteq> []"
    by (simp add: strip_def named_schema_text_def is_space_def dquote_def)
  note t = generate_text_request_response_format
             [where w = schema_world and messages = sample_messages and temp = "0.5"
                and max_toks = 100 and json_mode = False and api_base = None
                and url_variables = None,
              OF supports_json_gpt_4o rf resolve_schema_default]
  have a: ?a
    using supports_json_gpt_4o by (simp add: request_eval)
  have b: ?b
    using supports_json_gpt_4_turbo by (simp add: request_eval)
  have c: ?c
    using supports_json_gpt_4_turbo by (simp add: request_eval)
  have d: ?d
    using supports_json_gpt_4_turbo ne by (simp add: request_eval)
  have e: ?e
    using supports_json_phi4 by (simp add: request_eval)
  from t a b c d e show ?thesis by blast
qed

text \<open>
  C5 as stated fails: a schema given with a \<^verbatim>\<open>name\<close> (or a \<^verbatim>\<open>schema\<close>) key is
  passed on as it is, so the \<^verbatim>\<open>json_schema\<close> of the request sent need not have
  \<^verbatim>\<open>strict=True\<close>.
\<close>

theorem generate_text_request_schema_passed_as_given:
  "supports_json ''openai/gpt-4o''
   \<and> ''response_format'' \<in> set (get_supported_openai_params schema_world ''openai/gpt-4o'')
   \<and> supports_response_schema schema_world ''openai/gpt-4o''
   \<and> generate_text_sent schema_world sample_messages ''openai/gpt-4o'' 0.5 False 100 None None
        (Some named_schema_text) None =
     Inr (Completion_request
           [(''model'', PyStr ''openai/gpt-4o''),
            (''max_tokens'', PyInt 100),
            (''messages'', PyList (map PyDict sample_messages)),
            (''temperature'', PyFloat 0.5),
            (''response_format'',
               PyDict [(''type'', PyStr ''json_schema''),
                       (''json_schema'',
                          PyDict [(''name'', PyStr ''answer''),
                                  (''schema'', PyDict []),
                                  (''additionalProperties'', PyBool False)])])])
   \<and> map_of [(''name'', PyStr ''answer''), (''schema'', PyDict []),
              (''additionalProperties'', PyBool False)] ''strict'' = None"
proof -
  have ne: "strip named_schema_text \<noteq> []"
    by (simp add: strip_def named_schema_text_def is_space_def dquote_def)
  show ?thesis
    using supports_json_gpt_4o ne by (simp add: request_eval)
qed

subsection \<open>generate\_text: the wrapped response\<close>

text \<open>
  For a model without JSON output the request is the plain one and the answer of
  \<^verbatim>\<open>completion_with_backoff\<close> is wrapped.
\<close>

lemma supports_json_claude: "\<not> supports_json ''anthropic/claude-3-opus-latest''"
  by (simp add: supports_json_def get_model_info_def model_registry_def entry_def mk_constraints_def)

lemma generate_text_unsupported_json:
  assumes "\<not> supports_json model_name"
      and "result (completion_with_backoff w (base_kwargs messages model_name temp max_toks)) = Inr raw"
  shows "generate_text w messages model_name temp json_mode max_toks api_base url_variables
           output_json_schema output_schema = Inr (wrap_output raw)"
  using assms
  by (simp add: generate_text_def generate_text_request_def generate_text_call_def
      generate_text_result_def Let_def)

lemma wrap_output_backslash:
  "wrap_output [backslash] = ''{'' @ [dquote] @ ''output'' @ [dquote] @ '': '' @ [dquote, backslash, dquote] @ ''}''"
  by (simp add: wrap_output_def sanitize_def dquote_def backslash_def newline_def)

lemma json_output_field_backslash: "json_output_field (wrap_output [backslash]) = None"
  unfolding wrap_output_backslash
  by (simp add: json_output_field_def output_prefix_def json_escape_def dquote_def backslash_def)

text \<open>
  A response without backslashes and without control characters other than the newline
  is read back from the wrapper's text.
\<close>

lemma str_replace_char:
  "str_replace [a] new s = concat (map (\<lambda>c. if c = a then new else [c]) s)"
  by (induction s) auto

lemma sanitize_concat: "sanitize s = concat (map escape_char s)"
  by (induction s)
     (simp_all add: sanitize_def str_replace_char escape_char_def dquote_def backslash_def newline_def)

lemma json_string_body_escape_char:
  assumes "c \<noteq> backslash" and "c = newline \<or> 32 \<le> (of_char c :: nat)"
  shows "json_string_body (escape_char c @ xs) =
           (case json_string_body xs of None \<Rightarrow> None | Some (v, rest) \<Rightarrow> Some (c # v, rest))"
proof -
  consider "c = dquote" | "c = newline" | "c \<noteq> dquote" "c \<noteq> newline" by blast
  then show ?thesis
  proof cases
    case 1
    then show ?thesis
      by (simp add: escape_char_def json_escape_def dquote_def backslash_def
          split: option.splits)
  next
    case 2
    then show ?thesis
      by (simp add: escape_char_def json_escape_def dquote_def backslash_def newline_def
          split: option.splits)
  next
    case 3
    with assms show ?thesis
      by (simp add: escape_char_def split: option.splits)
  qed
qed

lemma json_string_body_sanitize:
  assumes "\<forall>c \<in> set s. c \<noteq> backslash \<and> (c = newline \<or> 32 \<le> (of_char c :: nat))"
  shows "json_string_body (sanitize s @ dquote # rest) = Some (s, rest)"
  unfolding sanitize_concat using assms
  by (induction s) (simp_all add: json_string_body_escape_char)

lemma wrap_output_round_trip:
  assumes "\<forall>c \<in> set s. c \<noteq> backslash \<and> (c = newline \<or> 32 \<le> (of_char c :: nat))"
  shows "json_output_field (wrap_output s) = Some s"
proof -
  have "wrap_output s = output_prefix @ (sanitize s @ dquote # ''}'')"
    by (simp add: wrap_output_def output_prefix_def)
  then show ?thesis
    using json_string_body_sanitize[OF assms, of "''}''"]
    by (simp add: json_output_field_def)
qed

text \<open>
  C9. For a model that does not support JSON output, the returned text should be JSON
  whose \<^verbatim>\<open>output\<close> is the raw response. When the provider answers with a single
  backslash, \<^verbatim>\<open>generate_text\<close> returns \<^verbatim>\<open>{"output": "\"}\<close>: the backslash
  escapes the closing quote, the string never ends, and the text is not JSON.
\<close>

theorem generate_text_backslash_not_json:
  "generate_text backslash_world [[(''role'', PyStr ''user''), (''content'', PyStr ''hi'')]]
       ''anthropic/claude-3-opus-latest'' 0.5 False 100 None None None None
     = Inr (''{'' @ [dquote] @ ''output'' @ [dquote] @ '': '' @ [dquote, backslash, dquote] @ ''}'')
   \<and> json_output_field
        (''{'' @ [dquote] @ ''output'' @ [dquote] @ '': '' @ [dquote, backslash, dquote] @ ''}'') = None"
proof -
  have "completion_with_backoff backslash_world
          (base_kwargs [[(''role'', PyStr ''user''), (''content'', PyStr ''hi'')]]
             ''anthropic/claude-3-opus-latest'' 0.5 100)
        = \<lparr>attempts = 1, result = Inr [backslash]\<rparr>"
    unfolding completion_with_backoff_def
    by (subst AsyncRetrying.simps)
       (simp add: completion_attempt_def kwargs_model_def base_kwargs_def backslash_world_def
          quiet_world_def startswith_def truthy_str_def first_choice_def)
  then show ?thesis
    using generate_text_unsupported_json[OF supports_json_claude, of backslash_world _ "0.5" 100 "[backslash]"]
          json_output_field_backslash
    by (simp add: wrap_output_backslash)
qed

subsection \<open>convert\_docx\_to\_xml\<close>

text \<open>
  The content section has one element for each character of the text; a failure of
  \<^verbatim>\<open>docx2python\<close> is logged and raised again.
\<close>

lemma paragraph_per_character:
  "concat (map paragraph_element (str_iter s)) =
     concat (map (\<lambda>c. ''<paragraph>'' @ [c] @ ''</paragraph>'' @ [newline]) s)"
  by (induction s) (simp_all add: str_iter_def paragraph_element_def)

lemma convert_docx_to_xml_failure:
  "docx2python w path = Inl e \<Longrightarrow>
   convert_docx_to_xml w path = ([LogError ''Error converting DOCX to XML: '' e], Inl e)"
  by (simp add: convert_docx_to_xml_def)

text \<open>
  C7. The content section should hold one \<^verbatim>\<open>paragraph\<close> element for each non-empty
  paragraph. The loop runs over the characters of \<^verbatim>\<open>docx_content.text\<close>: a
  document whose only paragraph is \<^verbatim>\<open>Hi\<close> gets two elements, one for each letter.
\<close>

theorem convert_docx_to_xml_paragraph_per_character:
  "convert_docx_to_xml memo_world ''memo.docx'' =
     ([], Inr (''<?xml version='1.0' encoding='UTF-8'?>'' @ [newline]
               @ ''<document>'' @ [newline]
               @ ''<metadata>'' @ [newline]
               @ ''<title>Memo</title>'' @ [newline]
               @ ''</metadata>'' @ [newline]
               @ ''<content>'' @ [newline]
               @ ''<paragraph>H</paragraph>'' @ [newline]
               @ ''<paragraph>i</paragraph>'' @ [newline]
               @ ''</content>'' @ [newline]
               @ ''</document>''))"
  by (simp add: convert_docx_to_xml_def memo_world_def memo_docx_def quiet_world_def
      property_element_def paragraph_element_def str_iter_def truthy_str_def)

end
